theory Spec2Isabelle
  imports Main
begin

section \<open>Data model\<close>

text \<open>
  The package \<open>reuse\<close> is a thin layer over Go's \<open>net\<close>, \<open>crypto/tls\<close> and
  \<open>syscall\<close> packages. The package's own functions (\<open>interface.go\<close>, the address
  dispatcher and the Windows \<open>Control\<close>) are embedded below line by line. What the
  package calls but does not define (the kernel, the \<open>net\<close> constructors, the textual
  resolvers) is an environment: a record \<open>env\<close> of answers the host gives, and a small
  model of the library's socket-creation sequence that threads an explicit \<open>world\<close>.
\<close>

type_synonym fd = nat

text \<open>Go's \<open>error\<close> values that the package builds or passes through.\<close>

datatype error =
    UnknownNetworkError string        \<comment> \<open>\<open>net.UnknownNetworkError(network)\<close>\<close>
  | Errorf string error               \<comment> \<open>\<open>fmt.Errorf(prefix + "%w", err)\<close>\<close>
  | ErrFileClosing                    \<comment> \<open>a raw connection whose descriptor is closed\<close>
  | ErrMissingAddress
  | ErrNoSuitableAddress
  | OSError string                    \<comment> \<open>any error the host reports\<close>

text \<open>
  Typed addresses. A Go pointer \<open>*net.TCPAddr\<close> is an \<open>option\<close> (\<open>None\<close> is the nil
  pointer); the interface \<open>net.Addr\<close> is the sum of the pointer types plus the nil
  interface, so that the dynamic type of an interface value is its constructor.
\<close>

type_synonym ip = "nat list"

datatype IPAddr = IPAddr ip string
datatype TCPAddr = TCPAddr ip nat string
datatype UDPAddr = UDPAddr ip nat string
datatype UnixAddr = UnixAddr string string      \<comment> \<open>\<open>Name\<close>, \<open>Net\<close>\<close>

datatype Addr =
    AddrNil
  | AddrIP "IPAddr option"
  | AddrTCP "TCPAddr option"
  | AddrUDP "UDPAddr option"
  | AddrUnix "UnixAddr option"

datatype addr_kind = KindIP | KindTCP | KindUDP | KindUnix

fun kind_of :: "Addr \<Rightarrow> addr_kind option" where
  "kind_of AddrNil = None"
| "kind_of (AddrIP _) = Some KindIP"
| "kind_of (AddrTCP _) = Some KindTCP"
| "kind_of (AddrUDP _) = Some KindUDP"
| "kind_of (AddrUnix _) = Some KindUnix"

text \<open>Socket levels and options named by the controller (\<open>golang.org/x/sys/windows\<close>).\<close>

datatype sock_level = SOL_SOCKET
datatype sock_opt = SO_REUSEADDR | SO_REUSEPORT

text \<open>The calls that reach the kernel, in the order they are made.\<close>

datatype syscall =
    SysSocket fd
  | SysSetsockopt fd sock_level sock_opt int
  | SysBind fd
  | SysListen fd
  | SysConnect fd string
  | SysClose fd
  | TLSHandshake fd

text \<open>
  The world a call runs in: the package variable \<open>Enabled\<close>, the descriptors that are
  open, the next descriptor the kernel hands out, and the history of kernel calls.
\<close>

record world =
  Enabled :: bool
  next_fd :: fd
  open_fds :: "fd list"
  trace :: "syscall list"

text \<open>
  A call either returns or panics (a nil-pointer dereference ends the goroutine, and
  with it the process).
\<close>

datatype 'a outcome = Panic | Return 'a

text \<open>
  How a dial with a timeout stands when it is about to try the next endpoint: in time,
  its context already done (the dial returns that error at once), or without time left
  for another attempt (the dial stops and returns its first error).
\<close>

datatype deadline = InTime | ContextDone error | OutOfTime error

text \<open>
  The host: what the library's resolvers answer and which kernel calls fail. Every
  field is a parameter of the model; no theorem below fixes it, except at a witness.
  \<^item> \<open>net_Resolve...Addr\<close> are \<open>net.ResolveIPAddr\<close>, \<open>net.ResolveTCPAddr\<close>,
    \<open>net.ResolveUDPAddr\<close>, \<open>net.ResolveUnixAddr\<close>, each returning Go's pair
    (pointer, error);
  \<^item> \<open>show_...Addr\<close> render a non-nil typed address as text;
  \<^item> \<open>listen_resolve\<close>, \<open>listenpacket_resolve\<close> and \<open>dial_resolve\<close> are the
    checks and the name resolution \<open>ListenConfig.Listen\<close>, \<open>ListenConfig.ListenPacket\<close>
    and \<open>Dialer.Dial\<close> make before they create a descriptor (\<open>dial_resolve\<close> gives
    the endpoints the remote address resolves to); \<open>parseNetwork\<close> is the check of
    \<open>net.ListenIP\<close>;
  \<^item> \<open>dial_hint\<close> is what \<open>Dialer.Dial\<close> keeps of those endpoints for a local address
    it can read (an error when the address types do not match);
  \<^item> \<open>deadline_state timeout fd\<close> is how a dial with that timeout stands when the
    next descriptor would be \<open>fd\<close>;
  \<^item> \<open>..._err\<close> say whether the kernel call on that descriptor fails, and how
    (\<open>socket_err fd\<close>: the creation of the descriptor that would be \<open>fd\<close>).
\<close>

record env =
  net_ResolveIPAddr :: "string \<Rightarrow> string \<Rightarrow> IPAddr option \<times> error option"
  net_ResolveTCPAddr :: "string \<Rightarrow> string \<Rightarrow> TCPAddr option \<times> error option"
  net_ResolveUDPAddr :: "string \<Rightarrow> string \<Rightarrow> UDPAddr option \<times> error option"
  net_ResolveUnixAddr :: "string \<Rightarrow> string \<Rightarrow> UnixAddr option \<times> error option"
  show_IPAddr :: "IPAddr \<Rightarrow> string"
  show_TCPAddr :: "TCPAddr \<Rightarrow> string"
  show_UDPAddr :: "UDPAddr \<Rightarrow> string"
  listen_resolve :: "string \<Rightarrow> string \<Rightarrow> error option"
  listenpacket_resolve :: "string \<Rightarrow> string \<Rightarrow> error option"
  dial_resolve :: "string \<Rightarrow> string \<Rightarrow> error + string list"
  dial_hint :: "Addr \<Rightarrow> string \<Rightarrow> string list \<Rightarrow> error + string list"
  deadline_state :: "int \<Rightarrow> fd \<Rightarrow> deadline"
  parseNetwork :: "string \<Rightarrow> error option"
  socket_err :: "fd \<Rightarrow> error option"
  setsockopt_err :: "fd \<Rightarrow> sock_level \<Rightarrow> sock_opt \<Rightarrow> int \<Rightarrow> error option"
  bind_err :: "fd \<Rightarrow> error option"
  listen_err :: "fd \<Rightarrow> error option"
  connect_err :: "fd \<Rightarrow> string \<Rightarrow> int \<Rightarrow> error option"
  handshake_err :: "fd \<Rightarrow> error option"

section \<open>The kernel and \<open>syscall.RawConn\<close>\<close>

definition log :: "syscall \<Rightarrow> world \<Rightarrow> world" where
  "log c w = w\<lparr>trace := trace w @ [c]\<rparr>"

definition sys_socket :: "env \<Rightarrow> world \<Rightarrow> (error + fd) \<times> world" where
  "sys_socket e w =
     (let fd = next_fd w; w1 = w\<lparr>next_fd := Suc fd\<rparr> in
      case socket_err e fd of
        Some err \<Rightarrow> (Inl err, w1)
      | None \<Rightarrow> (Inr fd, log (SysSocket fd) (w1\<lparr>open_fds := fd # open_fds w1\<rparr>)))"

definition SetsockoptInt ::
  "env \<Rightarrow> fd \<Rightarrow> sock_level \<Rightarrow> sock_opt \<Rightarrow> int \<Rightarrow> world \<Rightarrow> error option \<times> world" where
  "SetsockoptInt e fd level opt v w = (setsockopt_err e fd level opt v, log (SysSetsockopt fd level opt v) w)"

definition sys_bind :: "env \<Rightarrow> fd \<Rightarrow> world \<Rightarrow> error option \<times> world" where
  "sys_bind e fd w = (bind_err e fd, log (SysBind fd) w)"

definition sys_listen :: "env \<Rightarrow> fd \<Rightarrow> world \<Rightarrow> error option \<times> world" where
  "sys_listen e fd w = (listen_err e fd, log (SysListen fd) w)"

definition sys_connect :: "env \<Rightarrow> fd \<Rightarrow> string \<Rightarrow> int \<Rightarrow> world \<Rightarrow> error option \<times> world" where
  "sys_connect e fd ra timeout w = (connect_err e fd ra timeout, log (SysConnect fd ra) w)"

definition sys_close :: "fd \<Rightarrow> world \<Rightarrow> world" where
  "sys_close fd w = log (SysClose fd) (w\<lparr>open_fds := removeAll fd (open_fds w)\<rparr>)"

text \<open>
  \<open>syscall.RawConn\<close>: \<open>c.Control(f)\<close> runs \<open>f\<close> on the descriptor and returns nil, or
  returns an error without running \<open>f\<close> when the descriptor is closed. The closure
  \<open>f\<close> may assign to variables of the enclosing function: \<open>'a\<close> is their value.
\<close>

datatype rawconn = RawConn fd

fun rawconn_Control ::
  "rawconn \<Rightarrow> (fd \<Rightarrow> 'a \<Rightarrow> world \<Rightarrow> 'a \<times> world) \<Rightarrow> 'a \<Rightarrow> world \<Rightarrow> error option \<times> 'a \<times> world" where
  "rawconn_Control (RawConn fd) f captured w =
     (if fd \<in> set (open_fds w)
      then (let (captured', w') = f fd captured w in (None, captured', w'))
      else (Some ErrFileClosing, captured, w))"

section \<open>The socket-option controller\<close>

text \<open>
  \<^verbatim>\<open>
  func Control(network, address string, c syscall.RawConn) (err error) {
      if err := c.Control(func(fd uintptr) {
          err = windows.SetsockoptInt(windows.Handle(fd), windows.SOL_SOCKET, windows.SO_REUSEADDR, 1)
      }); err != nil {
          return err
      }
      return
  }
  \<close>
  The \<open>err\<close> assigned inside the closure is the named result (the scope of the
  \<open>err\<close> declared by \<open>:=\<close> starts after that statement); the \<open>err\<close> tested by
  the \<open>if\<close> is the result of \<open>c.Control\<close>.
\<close>

definition Control :: "env \<Rightarrow> string \<Rightarrow> string \<Rightarrow> rawconn \<Rightarrow> world \<Rightarrow> error option \<times> world" where
  "Control e network address c w =
     (let err = None;
          (err_inner, err, w') =
             rawconn_Control c (\<lambda>fd _ w. SetsockoptInt e fd SOL_SOCKET SO_REUSEADDR 1 w) err w
      in if err_inner \<noteq> None then (err_inner, w') else (err, w'))"

section \<open>The address-resolution dispatcher\<close>

definition resolveIPAddr :: "env \<Rightarrow> string \<Rightarrow> string \<Rightarrow> Addr \<times> error option" where
  "resolveIPAddr e network address = (let (a, err) = net_ResolveIPAddr e network address in (AddrIP a, err))"

definition resolveTCPAddr :: "env \<Rightarrow> string \<Rightarrow> string \<Rightarrow> Addr \<times> error option" where
  "resolveTCPAddr e network address = (let (a, err) = net_ResolveTCPAddr e network address in (AddrTCP a, err))"

definition resolveUDPAddr :: "env \<Rightarrow> string \<Rightarrow> string \<Rightarrow> Addr \<times> error option" where
  "resolveUDPAddr e network address = (let (a, err) = net_ResolveUDPAddr e network address in (AddrUDP a, err))"

definition resolveUnixAddr :: "env \<Rightarrow> string \<Rightarrow> string \<Rightarrow> Addr \<times> error option" where
  "resolveUnixAddr e network address = (let (a, err) = net_ResolveUnixAddr e network address in (AddrUnix a, err))"

definition addrMapping :: "env \<Rightarrow> string \<rightharpoonup> (string \<Rightarrow> string \<Rightarrow> Addr \<times> error option)" where
  "addrMapping e = map_of
     [(''ip'', resolveIPAddr e),
      (''ip4'', resolveIPAddr e),
      (''ip6'', resolveIPAddr e),
      (''tcp'', resolveTCPAddr e),
      (''tcp4'', resolveTCPAddr e),
      (''tcp6'', resolveTCPAddr e),
      (''udp'', resolveUDPAddr e),
      (''udp4'', resolveUDPAddr e),
      (''udp6'', resolveUDPAddr e),
      (''unix'', resolveUnixAddr e),
      (''unixgram'', resolveUnixAddr e),
      (''unixpacket'', resolveUnixAddr e)]"

definition ResolveAddr :: "env \<Rightarrow> string \<Rightarrow> string \<Rightarrow> Addr \<times> error option" where
  "ResolveAddr e network address =
     (case addrMapping e network of
        Some v \<Rightarrow> v network address
      | None \<Rightarrow> (AddrNil, Some (UnknownNetworkError network)))"

section \<open>The library's creation sequence\<close>

text \<open>
  What \<open>net\<close> does between the package's call and the kernel. A constructor of the
  library returns either an object or an error (\<open>Inl\<close>), and it closes the
  descriptor it created before it returns an error. The hook \<open>Control\<close> of a
  \<open>ListenConfig\<close> or a \<open>Dialer\<close> runs right after the descriptor is created, before
  \<open>bind\<close>, \<open>listen\<close> and \<open>connect\<close>; a constructor called without a hook skips
  that step.
\<close>

type_synonym ctrl_fn = "string \<Rightarrow> string \<Rightarrow> rawconn \<Rightarrow> world \<Rightarrow> error option \<times> world"

datatype sock_mode = ListenStream | ListenDatagram | DialTo string int

definition run_hook :: "ctrl_fn option \<Rightarrow> string \<Rightarrow> string \<Rightarrow> fd \<Rightarrow> world \<Rightarrow> error option \<times> world" where
  "run_hook ctrl network address fd w =
     (case ctrl of None \<Rightarrow> (None, w) | Some f \<Rightarrow> f network address (RawConn fd) w)"

fun finish :: "env \<Rightarrow> sock_mode \<Rightarrow> fd \<Rightarrow> world \<Rightarrow> error option \<times> world" where
  "finish e ListenStream fd w = sys_listen e fd w"
| "finish e ListenDatagram fd w = (None, w)"
| "finish e (DialTo ra timeout) fd w = sys_connect e fd ra timeout w"

definition net_socket ::
  "env \<Rightarrow> ctrl_fn option \<Rightarrow> string \<Rightarrow> string \<Rightarrow> bool \<Rightarrow> sock_mode \<Rightarrow> world \<Rightarrow> (error + fd) \<times> world" where
  "net_socket e ctrl network address do_bind mode w =
     (case sys_socket e w of
        (Inl err, w1) \<Rightarrow> (Inl err, w1)
      | (Inr fd, w1) \<Rightarrow>
          (case run_hook ctrl network address fd w1 of
             (Some err, w2) \<Rightarrow> (Inl err, sys_close fd w2)
           | (None, w2) \<Rightarrow>
               (case (if do_bind then sys_bind e fd w2 else (None, w2)) of
                  (Some err, w3) \<Rightarrow> (Inl err, sys_close fd w3)
                | (None, w3) \<Rightarrow>
                    (case finish e mode fd w3 of
                       (Some err, w4) \<Rightarrow> (Inl err, sys_close fd w4)
                     | (None, w4) \<Rightarrow> (Inr fd, w4)))))"

text \<open>
  \<open>String()\<close> of the typed addresses. The library's methods test their receiver
  first (\<^verbatim>\<open>if a == nil { return "<nil>" }\<close>), so a nil pointer renders as \<open><nil>\<close>;
  a \<open>UnixAddr\<close> renders as its \<open>Name\<close>.
\<close>

definition IPAddr_String :: "env \<Rightarrow> IPAddr option \<Rightarrow> string" where
  "IPAddr_String e a = (case a of None \<Rightarrow> ''<nil>'' | Some x \<Rightarrow> show_IPAddr e x)"

definition TCPAddr_String :: "env \<Rightarrow> TCPAddr option \<Rightarrow> string" where
  "TCPAddr_String e a = (case a of None \<Rightarrow> ''<nil>'' | Some x \<Rightarrow> show_TCPAddr e x)"

definition UDPAddr_String :: "env \<Rightarrow> UDPAddr option \<Rightarrow> string" where
  "UDPAddr_String e a = (case a of None \<Rightarrow> ''<nil>'' | Some x \<Rightarrow> show_UDPAddr e x)"

definition UnixAddr_String :: "UnixAddr option \<Rightarrow> string" where
  "UnixAddr_String a = (case a of None \<Rightarrow> ''<nil>'' | Some (UnixAddr name _) \<Rightarrow> name)"

text \<open>
  A method call on an interface value dispatches on its dynamic type; on the nil
  interface it panics (\<open>None\<close>).
\<close>

fun Addr_String :: "env \<Rightarrow> Addr \<Rightarrow> string option" where
  "Addr_String e AddrNil = None"
| "Addr_String e (AddrIP a) = Some (IPAddr_String e a)"
| "Addr_String e (AddrTCP a) = Some (TCPAddr_String e a)"
| "Addr_String e (AddrUDP a) = Some (UDPAddr_String e a)"
| "Addr_String e (AddrUnix a) = Some (UnixAddr_String a)"

text \<open>
  A dialed socket is bound to the local address when that is a non-nil pointer; a
  \<open>UnixAddr\<close> with an empty name counts as none.
\<close>

fun has_laddr :: "Addr \<Rightarrow> bool" where
  "has_laddr AddrNil = False"
| "has_laddr (AddrIP a) = (a \<noteq> None)"
| "has_laddr (AddrTCP a) = (a \<noteq> None)"
| "has_laddr (AddrUDP a) = (a \<noteq> None)"
| "has_laddr (AddrUnix None) = False"
| "has_laddr (AddrUnix (Some (UnixAddr name net))) = (name \<noteq> '''')"

record ListenConfig =
  lc_Control :: "ctrl_fn option"

record Dialer =
  d_Control :: "ctrl_fn option"
  d_LocalAddr :: Addr
  d_Timeout :: int

definition lc_Listen :: "env \<Rightarrow> ListenConfig \<Rightarrow> string \<Rightarrow> string \<Rightarrow> world \<Rightarrow> (error + fd) \<times> world" where
  "lc_Listen e lc network address w =
     (case listen_resolve e network address of
        Some err \<Rightarrow> (Inl err, w)
      | None \<Rightarrow> net_socket e (lc_Control lc) network address True ListenStream w)"

definition lc_ListenPacket :: "env \<Rightarrow> ListenConfig \<Rightarrow> string \<Rightarrow> string \<Rightarrow> world \<Rightarrow> (error + fd) \<times> world" where
  "lc_ListenPacket e lc network address w =
     (case listenpacket_resolve e network address of
        Some err \<Rightarrow> (Inl err, w)
      | None \<Rightarrow> net_socket e (lc_Control lc) network address True ListenDatagram w)"

text \<open>
  The typed listen constructors take no hook. \<open>net.ListenTCP\<close> accepts the networks
  \<open>tcp\<close>, \<open>tcp4\<close>, \<open>tcp6\<close> and binds the wildcard address for a nil \<open>laddr\<close>;
  \<open>net.ListenIP\<close> binds a raw IP socket (no \<open>listen\<close>); \<open>net.ListenUnix\<close> accepts
  \<open>unix\<close> and \<open>unixpacket\<close> and rejects a nil \<open>laddr\<close>.
\<close>

definition net_ListenTCP :: "env \<Rightarrow> string \<Rightarrow> TCPAddr option \<Rightarrow> world \<Rightarrow> (error + fd) \<times> world" where
  "net_ListenTCP e network laddr w =
     (if network \<in> set [''tcp'', ''tcp4'', ''tcp6'']
      then net_socket e None network (TCPAddr_String e laddr) True ListenStream w
      else (Inl (UnknownNetworkError network), w))"

definition net_ListenIP :: "env \<Rightarrow> string \<Rightarrow> IPAddr option \<Rightarrow> world \<Rightarrow> (error + fd) \<times> world" where
  "net_ListenIP e network laddr w =
     (case parseNetwork e network of
        Some err \<Rightarrow> (Inl err, w)
      | None \<Rightarrow> net_socket e None network (IPAddr_String e laddr) True ListenDatagram w)"

definition net_ListenUnix :: "env \<Rightarrow> string \<Rightarrow> UnixAddr option \<Rightarrow> world \<Rightarrow> (error + fd) \<times> world" where
  "net_ListenUnix e network laddr w =
     (if network \<in> set [''unix'', ''unixpacket'']
      then (if laddr = None then (Inl ErrMissingAddress, w)
            else net_socket e None network (UnixAddr_String laddr) True ListenStream w)
      else (Inl (UnknownNetworkError network), w))"

text \<open>
  \<open>SyscallConn\<close> of a listener or connection the library has just returned: the raw
  connection of its descriptor. (It fails only on a nil or closed-out receiver, which
  a successful constructor does not return; the facade's error branch is kept.)
\<close>

definition SyscallConn :: "fd \<Rightarrow> error + rawconn" where
  "SyscallConn fd = Inr (RawConn fd)"

text \<open>
  \<open>Dialer.Dial\<close>. The remote address resolves to a list of endpoints. When the
  dialer has a local address (a non-nil interface value) and there are endpoints, the
  library compares their network with \<open>LocalAddr.Network()\<close>: that method of
  \<open>*UnixAddr\<close> reads the field \<open>Net\<close> and panics on a nil pointer, while those of
  \<open>*TCPAddr\<close>, \<open>*UDPAddr\<close> and \<open>*IPAddr\<close> return a constant. With a local address
  and no endpoint the library reports that no address is suitable.
\<close>

definition hint_filter :: "env \<Rightarrow> Addr \<Rightarrow> string \<Rightarrow> string list \<Rightarrow> (error + string list) outcome" where
  "hint_filter e hint network addrs =
     (if hint = AddrNil then Return (Inr addrs)
      else if addrs = [] then Return (Inl ErrNoSuitableAddress)
      else if hint = AddrUnix None then Panic
      else Return (dial_hint e hint network addrs))"

text \<open>
  The endpoints are tried in order; each attempt creates its own descriptor. Before
  an attempt a dialer with a timeout looks at its deadline. The first success is
  returned, else the first error.
\<close>

fun dialSerial ::
  "env \<Rightarrow> Dialer \<Rightarrow> string \<Rightarrow> string list \<Rightarrow> error option \<Rightarrow> world \<Rightarrow> (error + fd) \<times> world" where
  "dialSerial e d network [] firstErr w =
     (Inl (case firstErr of None \<Rightarrow> ErrMissingAddress | Some err \<Rightarrow> err), w)"
| "dialSerial e d network (ra # ras) firstErr w =
     (case (if d_Timeout d = 0 then InTime else deadline_state e (d_Timeout d) (next_fd w)) of
        ContextDone err \<Rightarrow> (Inl err, w)
      | OutOfTime err \<Rightarrow> (Inl (case firstErr of None \<Rightarrow> err | Some first \<Rightarrow> first), w)
      | InTime \<Rightarrow>
          (case net_socket e (d_Control d) network ra (has_laddr (d_LocalAddr d))
                  (DialTo ra (d_Timeout d)) w of
             (Inr fd, w1) \<Rightarrow> (Inr fd, w1)
           | (Inl err, w1) \<Rightarrow>
               dialSerial e d network ras (if firstErr = None then Some err else firstErr) w1))"

definition Dialer_Dial ::
  "env \<Rightarrow> Dialer \<Rightarrow> string \<Rightarrow> string \<Rightarrow> world \<Rightarrow> ((error + fd) \<times> world) outcome" where
  "Dialer_Dial e d network address w =
     (case dial_resolve e network address of
        Inl err \<Rightarrow> Return (Inl err, w)
      | Inr addrs \<Rightarrow>
          (case hint_filter e (d_LocalAddr d) network addrs of
             Panic \<Rightarrow> Panic
           | Return (Inl err) \<Rightarrow> Return (Inl err, w)
           | Return (Inr ras) \<Rightarrow> Return (dialSerial e d network ras None w)))"

text \<open>
  Objects handed to the caller. A \<open>net.Conn\<close> or \<open>net.Listener\<close> is an interface
  value: the library's own sockets, a \<open>tls\<close> listener, or a pointer \<open>*tls.Conn\<close>,
  which may be nil inside a non-nil interface value.
\<close>

datatype tls_Config = TLSConfig string

datatype tls_Conn = TLSConn fd "tls_Config option"

datatype netobj =
    Sock fd
  | TLSListener netobj "tls_Config option"
  | TLSConnPtr "tls_Conn option"

text \<open>
  \<open>tls.NewListener\<close> only wraps. \<open>tls.DialWithDialer\<close> dials with the dialer, runs
  the handshake on the connection, and closes the connection when the handshake fails;
  it returns a \<open>*tls.Conn\<close>, nil with an error.
\<close>

definition tls_DialWithDialer ::
  "env \<Rightarrow> Dialer \<Rightarrow> string \<Rightarrow> string \<Rightarrow> tls_Config option \<Rightarrow> world \<Rightarrow>
     ((error + tls_Conn) \<times> world) outcome" where
  "tls_DialWithDialer e d network address config w =
     (case Dialer_Dial e d network address w of
        Panic \<Rightarrow> Panic
      | Return (Inl err, w1) \<Rightarrow> Return (Inl err, w1)
      | Return (Inr fd, w1) \<Rightarrow>
          (case handshake_err e fd of
             Some err \<Rightarrow> Return (Inl err, sys_close fd (log (TLSHandshake fd) w1))
           | None \<Rightarrow> Return (Inr (TLSConn fd config), log (TLSHandshake fd) w1)))"

text \<open>
  Go's two results (value, error) of a call that returns the library's answer as it
  is. A library function declared to return an interface returns the nil interface
  with an error (\<open>returns_sock\<close>). \<open>tls.DialWithDialer\<close> is declared to return the
  pointer \<open>*tls.Conn\<close>: returned as a \<open>net.Conn\<close>, its nil pointer becomes a non-nil
  interface value (\<open>returns_tls\<close>).
\<close>

type_synonym 'a go_result = "('a option \<times> error option) \<times> world"

definition returns_sock :: "(error + fd) \<times> world \<Rightarrow> netobj go_result" where
  "returns_sock r = (case r of (Inl err, w) \<Rightarrow> ((None, Some err), w) | (Inr fd, w) \<Rightarrow> ((Some (Sock fd), None), w))"

definition returns_tls :: "(error + tls_Conn) \<times> world \<Rightarrow> netobj go_result" where
  "returns_tls r =
     (case r of
        (Inl err, w) \<Rightarrow> ((Some (TLSConnPtr None), Some err), w)
      | (Inr c, w) \<Rightarrow> ((Some (TLSConnPtr (Some c)), None), w))"

section \<open>The facade: \<open>interface.go\<close>\<close>

text \<open>
  \<^verbatim>\<open>
  var (
      Enabled      = false
      listenConfig = net.ListenConfig{ Control: Control }
  )
  \<close>
\<close>

definition init_world :: world where
  "init_world = \<lparr>Enabled = False, next_fd = 0, open_fds = [], trace = []\<rparr>"

definition listenConfig :: "env \<Rightarrow> ListenConfig" where
  "listenConfig e = \<lparr>lc_Control = Some (Control e)\<rparr>"

definition Listen :: "env \<Rightarrow> string \<Rightarrow> string \<Rightarrow> world \<Rightarrow> netobj go_result" where
  "Listen e network address w = returns_sock (lc_Listen e (listenConfig e) network address w)"

definition ListenTLS :: "env \<Rightarrow> string \<Rightarrow> string \<Rightarrow> tls_Config option \<Rightarrow> world \<Rightarrow> netobj go_result" where
  "ListenTLS e network address config w =
     (case lc_Listen e (listenConfig e) network address w of
        (Inl err, w1) \<Rightarrow> ((None, Some err), w1)
      | (Inr listen, w1) \<Rightarrow> ((Some (TLSListener (Sock listen) config), None), w1))"

text \<open>
  \<^verbatim>\<open>
  func ListenTCP(network string, laddr *net.TCPAddr) (*net.TCPListener, error) {
      t, err := net.ListenTCP(network, laddr)
      if err != nil { return nil, err }
      conn, err := t.SyscallConn()
      if err != nil { return nil, err }
      err = Control(network, "", conn)
      return t, err
  }
  \<close>
  \<open>ListenIP\<close> and \<open>ListenUnix\<close> have the same body over \<open>net.ListenIP\<close> and
  \<open>net.ListenUnix\<close>.
\<close>

definition ListenTCP :: "env \<Rightarrow> string \<Rightarrow> TCPAddr option \<Rightarrow> world \<Rightarrow> netobj go_result" where
  "ListenTCP e network laddr w =
     (case net_ListenTCP e network laddr w of
        (Inl err, w1) \<Rightarrow> ((None, Some err), w1)
      | (Inr t, w1) \<Rightarrow>
          (case SyscallConn t of
             Inl err \<Rightarrow> ((None, Some err), w1)
           | Inr conn \<Rightarrow>
               (let (err, w2) = Control e network '''' conn w1 in ((Some (Sock t), err), w2))))"

definition ListenIP :: "env \<Rightarrow> string \<Rightarrow> IPAddr option \<Rightarrow> world \<Rightarrow> netobj go_result" where
  "ListenIP e network laddr w =
     (case net_ListenIP e network laddr w of
        (Inl err, w1) \<Rightarrow> ((None, Some err), w1)
      | (Inr i, w1) \<Rightarrow>
          (case SyscallConn i of
             Inl err \<Rightarrow> ((None, Some err), w1)
           | Inr conn \<Rightarrow>
               (let (err, w2) = Control e network '''' conn w1 in ((Some (Sock i), err), w2))))"

definition ListenUnix :: "env \<Rightarrow> string \<Rightarrow> UnixAddr option \<Rightarrow> world \<Rightarrow> netobj go_result" where
  "ListenUnix e network laddr w =
     (case net_ListenUnix e network laddr w of
        (Inl err, w1) \<Rightarrow> ((None, Some err), w1)
      | (Inr u, w1) \<Rightarrow>
          (case SyscallConn u of
             Inl err \<Rightarrow> ((None, Some err), w1)
           | Inr conn \<Rightarrow>
               (let (err, w2) = Control e network '''' conn w1 in ((Some (Sock u), err), w2))))"

definition ListenPacket :: "env \<Rightarrow> string \<Rightarrow> string \<Rightarrow> world \<Rightarrow> netobj go_result" where
  "ListenPacket e network address w = returns_sock (lc_ListenPacket e (listenConfig e) network address w)"

text \<open>
  \<^verbatim>\<open>
  func DialTimeOut(network, laddr, raddr string, timeout time.Duration) (net.Conn, error) {
      nla, err := ResolveAddr(network, laddr)
      if err != nil { return nil, fmt.Errorf("resolving local addr: %w", err) }
      d := net.Dialer{ Control: Control, LocalAddr: nla, Timeout: timeout }
      return d.Dial(network, raddr)
  }
  \<close>
\<close>

definition DialTimeOut ::
  "env \<Rightarrow> string \<Rightarrow> string \<Rightarrow> string \<Rightarrow> int \<Rightarrow> world \<Rightarrow> netobj go_result outcome" where
  "DialTimeOut e network laddr raddr timeout w =
     (case ResolveAddr e network laddr of
        (nla, Some err) \<Rightarrow> Return ((None, Some (Errorf ''resolving local addr: '' err)), w)
      | (nla, None) \<Rightarrow>
          map_outcome returns_sock
            (Dialer_Dial e \<lparr>d_Control = Some (Control e), d_LocalAddr = nla, d_Timeout = timeout\<rparr>
               network raddr w))"

definition Dial :: "env \<Rightarrow> string \<Rightarrow> string \<Rightarrow> string \<Rightarrow> world \<Rightarrow> netobj go_result outcome" where
  "Dial e network laddr raddr w =
     (case ResolveAddr e network laddr of
        (nla, Some err) \<Rightarrow> Return ((None, Some (Errorf ''resolving local addr: '' err)), w)
      | (nla, None) \<Rightarrow>
          map_outcome returns_sock
            (Dialer_Dial e \<lparr>d_Control = Some (Control e), d_LocalAddr = nla, d_Timeout = 0\<rparr>
               network raddr w))"

text \<open>
  \<^verbatim>\<open>
  func DialTLS(network, laddr, raddr string, config *tls.Config) (net.Conn, error) {
      nla, err := ResolveAddr(network, laddr)
      if err != nil { return nil, fmt.Errorf("resolving local addr: %w", err) }
      d := net.Dialer{ Control: Control, LocalAddr: nla }
      return tls.DialWithDialer(&d, network, raddr, config)
  }
  \<close>
\<close>

definition DialTLS ::
  "env \<Rightarrow> string \<Rightarrow> string \<Rightarrow> string \<Rightarrow> tls_Config option \<Rightarrow> world \<Rightarrow> netobj go_result outcome" where
  "DialTLS e network laddr raddr config w =
     (case ResolveAddr e network laddr of
        (nla, Some err) \<Rightarrow> Return ((None, Some (Errorf ''resolving local addr: '' err)), w)
      | (nla, None) \<Rightarrow>
          map_outcome returns_tls
            (tls_DialWithDialer e \<lparr>d_Control = Some (Control e), d_LocalAddr = nla, d_Timeout = 0\<rparr>
               network raddr config w))"

text \<open>
  \<^verbatim>\<open>
  func DialTCP(network string, laddr *net.TCPAddr, raddr *net.TCPAddr) (net.Conn, error) {
      d := net.Dialer{ Control: Control, LocalAddr: laddr }
      return d.Dial(network, raddr.String())
  }
  \<close>
  The typed local address becomes the interface value \<open>LocalAddr\<close>, a nil pointer
  included. \<open>DialAddr\<close> takes \<open>net.Addr\<close> interface values: \<open>raddr.String()\<close> on the
  nil interface panics before the dialer is called.
\<close>

definition DialTCP ::
  "env \<Rightarrow> string \<Rightarrow> TCPAddr option \<Rightarrow> TCPAddr option \<Rightarrow> world \<Rightarrow> netobj go_result outcome" where
  "DialTCP e network laddr raddr w =
     map_outcome returns_sock
       (Dialer_Dial e \<lparr>d_Control = Some (Control e), d_LocalAddr = AddrTCP laddr, d_Timeout = 0\<rparr>
          network (TCPAddr_String e raddr) w)"

definition DialAddr :: "env \<Rightarrow> string \<Rightarrow> Addr \<Rightarrow> Addr \<Rightarrow> world \<Rightarrow> netobj go_result outcome" where
  "DialAddr e network laddr raddr w =
     (case Addr_String e raddr of
        None \<Rightarrow> Panic
      | Some s \<Rightarrow>
          map_outcome returns_sock
            (Dialer_Dial e \<lparr>d_Control = Some (Control e), d_LocalAddr = laddr, d_Timeout = 0\<rparr>
               network s w))"

definition DialIP ::
  "env \<Rightarrow> string \<Rightarrow> IPAddr option \<Rightarrow> IPAddr option \<Rightarrow> world \<Rightarrow> netobj go_result outcome" where
  "DialIP e network laddr raddr w =
     map_outcome returns_sock
       (Dialer_Dial e \<lparr>d_Control = Some (Control e), d_LocalAddr = AddrIP laddr, d_Timeout = 0\<rparr>
          network (IPAddr_String e raddr) w)"

definition DialUDP ::
  "env \<Rightarrow> string \<Rightarrow> UDPAddr option \<Rightarrow> UDPAddr option \<Rightarrow> world \<Rightarrow> netobj go_result outcome" where
  "DialUDP e network laddr raddr w =
     map_outcome returns_sock
       (Dialer_Dial e \<lparr>d_Control = Some (Control e), d_LocalAddr = AddrUDP laddr, d_Timeout = 0\<rparr>
          network (UDPAddr_String e raddr) w)"

definition DialTimeoutUDP ::
  "env \<Rightarrow> string \<Rightarrow> UDPAddr option \<Rightarrow> UDPAddr option \<Rightarrow> int \<Rightarrow> world \<Rightarrow> netobj go_result outcome" where
  "DialTimeoutUDP e network laddr raddr timeout w =
     map_outcome returns_sock
       (Dialer_Dial e \<lparr>d_Control = Some (Control e), d_LocalAddr = AddrUDP laddr, d_Timeout = timeout\<rparr>
          network (UDPAddr_String e raddr) w)"

definition DialUnix ::
  "env \<Rightarrow> string \<Rightarrow> UnixAddr option \<Rightarrow> UnixAddr option \<Rightarrow> world \<Rightarrow> netobj go_result outcome" where
  "DialUnix e network laddr raddr w =
     map_outcome returns_sock
       (Dialer_Dial e \<lparr>d_Control = Some (Control e), d_LocalAddr = AddrUnix laddr, d_Timeout = 0\<rparr>
          network (UnixAddr_String raddr) w)"

section \<open>Notions the properties are stated with\<close>

text \<open>
  The family groups as the specification words them: \<open>ip\<close>, \<open>ip4\<close>, \<open>ip6\<close> are the
  IP-only group, \<open>tcp*\<close> the TCP group, \<open>udp*\<close> the UDP group, \<open>unix\<close>,
  \<open>unixgram\<close>, \<open>unixpacket\<close> the filesystem-path group; any other tag has none.
\<close>

definition family_group :: "string \<Rightarrow> addr_kind option" where
  "family_group network =
     (if network \<in> set [''ip'', ''ip4'', ''ip6''] then Some KindIP
      else if network \<in> set [''tcp'', ''tcp4'', ''tcp6''] then Some KindTCP
      else if network \<in> set [''udp'', ''udp4'', ''udp6''] then Some KindUDP
      else if network \<in> set [''unix'', ''unixgram'', ''unixpacket''] then Some KindUnix
      else None)"


text \<open>
  The hooks the package uses: \<open>Control\<close> (through \<open>listenConfig\<close> or a dialer), or
  none (the typed listen constructors of the library are called without one).
\<close>

definition hook_of_package :: "env \<Rightarrow> ctrl_fn option \<Rightarrow> bool" where
  "hook_of_package e ctrl = (ctrl = None \<or> ctrl = Some (Control e))"

text \<open>
  Reading a history of kernel calls. \<open>tracks\<close> keeps the descriptors that exist and
  have not yet been bound, put to listen, connected or closed; \<open>options_before_bind\<close>
  says that every \<open>setsockopt\<close> of the history is made on such a descriptor.
  \<open>calls_of w w'\<close> are the calls made between the worlds \<open>w\<close> and \<open>w'\<close>.
\<close>

fun tracks :: "syscall \<Rightarrow> fd list \<Rightarrow> fd list" where
  "tracks (SysSocket fd) unbound = fd # unbound"
| "tracks (SysSetsockopt fd level opt v) unbound = unbound"
| "tracks (SysBind fd) unbound = removeAll fd unbound"
| "tracks (SysListen fd) unbound = removeAll fd unbound"
| "tracks (SysConnect fd ra) unbound = removeAll fd unbound"
| "tracks (SysClose fd) unbound = removeAll fd unbound"
| "tracks (TLSHandshake fd) unbound = unbound"

fun option_allowed :: "syscall \<Rightarrow> fd list \<Rightarrow> bool" where
  "option_allowed (SysSetsockopt fd level opt v) unbound = (fd \<in> set unbound)"
| "option_allowed c unbound = True"

fun options_before_bind :: "syscall list \<Rightarrow> fd list \<Rightarrow> bool" where
  "options_before_bind [] unbound = True"
| "options_before_bind (c # cs) unbound =
     (option_allowed c unbound \<and> options_before_bind cs (tracks c unbound))"

definition calls_of :: "world \<Rightarrow> world \<Rightarrow> syscall list" where
  "calls_of w w' = drop (length (trace w)) (trace w')"

text \<open>
  Descriptors are handed out in increasing order, so the open ones are below
  \<open>next_fd\<close>.
\<close>

definition fresh_fds :: "world \<Rightarrow> bool" where
  "fresh_fds w = list_all (\<lambda>fd. fd < next_fd w) (open_fds w)"

text \<open>
  What a creation call of the library guarantees: either it fails and the open
  descriptors are those from before, or it returns a new descriptor, now open; and its
  option calls all come before bind, listen and connect.
\<close>

definition clean_run :: "world \<Rightarrow> (error + fd) \<times> world \<Rightarrow> bool" where
  "clean_run w r =
     (case r of (res, w') \<Rightarrow>
        next_fd w \<le> next_fd w' \<and>
        (\<exists>cs. trace w' = trace w @ cs \<and> (\<forall>u. options_before_bind cs u)) \<and>
        (case res of
           Inl err \<Rightarrow> open_fds w' = open_fds w
         | Inr fd \<Rightarrow> next_fd w \<le> fd \<and> fd < next_fd w' \<and> open_fds w' = fd # open_fds w))"

text \<open>
  What the caller of a listen or dial entry point may rely on: exactly one of value and
  error is returned, a value comes with one more open descriptor, an error with none.
\<close>

definition aborts_cleanly :: "world \<Rightarrow> netobj go_result \<Rightarrow> bool" where
  "aborts_cleanly w r =
     (case r of
        ((Some obj, None), w') \<Rightarrow> (\<exists>fd. open_fds w' = fd # open_fds w)
      | ((None, Some err), w') \<Rightarrow> open_fds w' = open_fds w
      | ((Some obj, Some err), w') \<Rightarrow> False
      | ((None, None), w') \<Rightarrow> False)"

text \<open>
  The weaker guarantee, on descriptors only: a call that returns an error leaves the
  open descriptors as they were, whatever value comes with the error.
\<close>

definition releases_on_failure :: "world \<Rightarrow> netobj go_result \<Rightarrow> bool" where
  "releases_on_failure w r =
     (case r of
        ((obj, None), w') \<Rightarrow> (\<exists>fd. open_fds w' = fd # open_fds w)
      | ((obj, Some err), w') \<Rightarrow> open_fds w' = open_fds w)"

text \<open>A host whose kernel refuses the address-reuse option on every descriptor.\<close>

definition option_refused :: "env \<Rightarrow> bool" where
  "option_refused e = (\<forall>fd. setsockopt_err e fd SOL_SOCKET SO_REUSEADDR 1 \<noteq> None)"

text \<open>
  A process is a sequence of calls to the package's operations, starting in
  \<open>init_world\<close>; a panic ends it. \<open>ResolveAddr\<close> takes no world: it cannot change
  one.
\<close>

datatype call =
    CallControl string string rawconn
  | CallListen string string
  | CallListenTLS string string "tls_Config option"
  | CallListenTCP string "TCPAddr option"
  | CallListenIP string "IPAddr option"
  | CallListenUnix string "UnixAddr option"
  | CallListenPacket string string
  | CallDialTimeOut string string string int
  | CallDial string string string
  | CallDialTLS string string string "tls_Config option"
  | CallDialTCP string "TCPAddr option" "TCPAddr option"
  | CallDialAddr string Addr Addr
  | CallDialIP string "IPAddr option" "IPAddr option"
  | CallDialUDP string "UDPAddr option" "UDPAddr option"
  | CallDialTimeoutUDP string "UDPAddr option" "UDPAddr option" int
  | CallDialUnix string "UnixAddr option" "UnixAddr option"
  | CallResolveAddr string string

fun exec :: "env \<Rightarrow> call \<Rightarrow> world \<Rightarrow> world outcome" where
  "exec e (CallControl network address c) w = Return (snd (Control e network address c w))"
| "exec e (CallListen network address) w = Return (snd (Listen e network address w))"
| "exec e (CallListenTLS network address config) w = Return (snd (ListenTLS e network address config w))"
| "exec e (CallListenTCP network laddr) w = Return (snd (ListenTCP e network laddr w))"
| "exec e (CallListenIP network laddr) w = Return (snd (ListenIP e network laddr w))"
| "exec e (CallListenUnix network laddr) w = Return (snd (ListenUnix e network laddr w))"
| "exec e (CallListenPacket network address) w = Return (snd (ListenPacket e network address w))"
| "exec e (CallDialTimeOut network laddr raddr timeout) w =
     map_outcome snd (DialTimeOut e network laddr raddr timeout w)"
| "exec e (CallDial network laddr raddr) w = map_outcome snd (Dial e network laddr raddr w)"
| "exec e (CallDialTLS network laddr raddr config) w =
     map_outcome snd (DialTLS e network laddr raddr config w)"
| "exec e (CallDialTCP network laddr raddr) w = map_outcome snd (DialTCP e network laddr raddr w)"
| "exec e (CallDialAddr network laddr raddr) w = map_outcome snd (DialAddr e network laddr raddr w)"
| "exec e (CallDialIP network laddr raddr) w = map_outcome snd (DialIP e network laddr raddr w)"
| "exec e (CallDialUDP network laddr raddr) w = map_outcome snd (DialUDP e network laddr raddr w)"
| "exec e (CallDialTimeoutUDP network laddr raddr timeout) w =
     map_outcome snd (DialTimeoutUDP e network laddr raddr timeout w)"
| "exec e (CallDialUnix network laddr raddr) w = map_outcome snd (DialUnix e network laddr raddr w)"
| "exec e (CallResolveAddr network address) w = Return w"

fun run :: "env \<Rightarrow> call list \<Rightarrow> world \<Rightarrow> world" where
  "run e [] w = w"
| "run e (c # cs) w = (case exec e c w of Panic \<Rightarrow> w | Return w' \<Rightarrow> run e cs w')"

section \<open>Example hosts\<close>

text \<open>
  Concrete hosts, used to run the definitions: on \<open>host_ok\<close> every library and
  kernel call succeeds; \<open>host_denied\<close> differs only in that the kernel refuses every
  \<open>setsockopt\<close>; \<open>host_no_peer\<close> differs only in that nothing answers a
  \<open>connect\<close>.
\<close>

definition host_ok :: env where
  "host_ok = \<lparr>
     net_ResolveIPAddr = (\<lambda>network address. (Some (IPAddr [127, 0, 0, 1] ''''), None)),
     net_ResolveTCPAddr = (\<lambda>network address. (Some (TCPAddr [127, 0, 0, 1] 1234 ''''), None)),
     net_ResolveUDPAddr = (\<lambda>network address. (Some (UDPAddr [127, 0, 0, 1] 1234 ''''), None)),
     net_ResolveUnixAddr = (\<lambda>network address. (Some (UnixAddr address network), None)),
     show_IPAddr = (\<lambda>a. ''127.0.0.1''),
     show_TCPAddr = (\<lambda>a. ''127.0.0.1:1234''),
     show_UDPAddr = (\<lambda>a. ''127.0.0.1:1234''),
     listen_resolve = (\<lambda>network address. None),
     listenpacket_resolve = (\<lambda>network address. None),
     dial_resolve = (\<lambda>network address. Inr [address]),
     dial_hint = (\<lambda>hint network addrs. Inr addrs),
     deadline_state = (\<lambda>timeout fd. InTime),
     parseNetwork = (\<lambda>network. None),
     socket_err = (\<lambda>fd. None),
     setsockopt_err = (\<lambda>fd level opt v. None),
     bind_err = (\<lambda>fd. None),
     listen_err = (\<lambda>fd. None),
     connect_err = (\<lambda>fd ra timeout. None),
     handshake_err = (\<lambda>fd. None)\<rparr>"

definition host_denied :: env where
  "host_denied = host_ok\<lparr>setsockopt_err := (\<lambda>fd level opt v. Some (OSError ''WSAEACCES''))\<rparr>"



section \<open>The address-resolution dispatcher: properties\<close>

lemma addrMapping_simps:
  "addrMapping e network =
     (if network \<in> set [''ip'', ''ip4'', ''ip6''] then Some (resolveIPAddr e)
      else if network \<in> set [''tcp'', ''tcp4'', ''tcp6''] then Some (resolveTCPAddr e)
      else if network \<in> set [''udp'', ''udp4'', ''udp6''] then Some (resolveUDPAddr e)
      else if network \<in> set [''unix'', ''unixgram'', ''unixpacket''] then Some (resolveUnixAddr e)
      else None)"
  by (simp add: addrMapping_def)

lemma kind_of_resolvers:
  "kind_of (fst (resolveIPAddr e n a)) = Some KindIP"
  "kind_of (fst (resolveTCPAddr e n a)) = Some KindTCP"
  "kind_of (fst (resolveUDPAddr e n a)) = Some KindUDP"
  "kind_of (fst (resolveUnixAddr e n a)) = Some KindUnix"
  by (simp_all add: resolveIPAddr_def resolveTCPAddr_def resolveUDPAddr_def resolveUnixAddr_def
        split: prod.splits)

text \<open>
  C3. A family tag outside the twelve keys of \<open>addrMapping\<close> makes \<open>ResolveAddr\<close> fail
  for every address with \<open>UnknownNetworkError\<close> carrying that tag, and the address
  returned with it is the nil interface: nothing is resolved.
\<close>

theorem ResolveAddr_unknown_family:
  "network \<notin> set [''ip'', ''ip4'', ''ip6'', ''tcp'', ''tcp4'', ''tcp6'', ''udp'', ''udp4'', ''udp6'',
       ''unix'', ''unixgram'', ''unixpacket'']
   \<Longrightarrow> ResolveAddr e network address = (AddrNil, Some (UnknownNetworkError network))"
  by (simp add: ResolveAddr_def addrMapping_simps)

theorem ResolveAddr_unknown_family_witness:
  "ResolveAddr host_ok ''sctp'' ''127.0.0.1:1234'' = (AddrNil, Some (UnknownNetworkError ''sctp''))"
  using ResolveAddr_unknown_family [of "''sctp''" host_ok "''127.0.0.1:1234''"] by simp

text \<open>
  C4. Whenever \<open>ResolveAddr\<close> succeeds (its error is nil), the family tag is one of
  the supported ones and the dynamic type of the address returned is the one of the
  tag's group; an address of another family's type is never returned.
\<close>

theorem ResolveAddr_family_type:
  "snd (ResolveAddr e network address) = None \<Longrightarrow>
     family_group network \<noteq> None \<and>
     kind_of (fst (ResolveAddr e network address)) = family_group network"
  by (auto simp: ResolveAddr_def addrMapping_simps family_group_def kind_of_resolvers
        split: if_splits)

theorem ResolveAddr_family_type_witness:
  "snd (ResolveAddr host_ok ''udp6'' ''[::1]:53'') = None \<and>
   family_group ''udp6'' = Some KindUDP \<and>
   kind_of (fst (ResolveAddr host_ok ''udp6'' ''[::1]:53'')) = Some KindUDP"
proof -
  have ok: "snd (ResolveAddr host_ok ''udp6'' ''[::1]:53'') = None"
    by (simp add: ResolveAddr_def addrMapping_simps resolveUDPAddr_def host_ok_def)
  have grp: "family_group ''udp6'' = Some KindUDP"
    by (simp add: family_group_def)
  from ResolveAddr_family_type [OF ok] ok grp show ?thesis by simp
qed

text \<open>
  C7. The tags of one group are mapped to the same resolution function, and
  \<open>ResolveAddr\<close> calls that function with the tag and the address unchanged: within a
  group, the result depends on the tag only through what the shared function does
  with it.
\<close>

theorem addrMapping_groups:
  "addrMapping e ''ip'' = Some (resolveIPAddr e) \<and>
   addrMapping e ''ip4'' = Some (resolveIPAddr e) \<and>
   addrMapping e ''ip6'' = Some (resolveIPAddr e) \<and>
   addrMapping e ''tcp'' = Some (resolveTCPAddr e) \<and>
   addrMapping e ''tcp4'' = Some (resolveTCPAddr e) \<and>
   addrMapping e ''tcp6'' = Some (resolveTCPAddr e) \<and>
   addrMapping e ''udp'' = Some (resolveUDPAddr e) \<and>
   addrMapping e ''udp4'' = Some (resolveUDPAddr e) \<and>
   addrMapping e ''udp6'' = Some (resolveUDPAddr e) \<and>
   addrMapping e ''unix'' = Some (resolveUnixAddr e) \<and>
   addrMapping e ''unixgram'' = Some (resolveUnixAddr e) \<and>
   addrMapping e ''unixpacket'' = Some (resolveUnixAddr e) \<and>
   ResolveAddr e network address =
     (case family_group network of
        Some KindIP \<Rightarrow> resolveIPAddr e network address
      | Some KindTCP \<Rightarrow> resolveTCPAddr e network address
      | Some KindUDP \<Rightarrow> resolveUDPAddr e network address
      | Some KindUnix \<Rightarrow> resolveUnixAddr e network address
      | None \<Rightarrow> (AddrNil, Some (UnknownNetworkError network)))"
  by (simp add: addrMapping_simps ResolveAddr_def family_group_def)

section \<open>The socket-option controller: properties\<close>

lemma Control_eq:
  "Control e network address (RawConn fd) w =
     (if fd \<in> set (open_fds w)
      then (setsockopt_err e fd SOL_SOCKET SO_REUSEADDR 1, log (SysSetsockopt fd SOL_SOCKET SO_REUSEADDR 1) w)
      else (Some ErrFileClosing, w))"
  by (simp add: Control_def SetsockoptInt_def)

text \<open>
  C6. On a descriptor that can be reached, \<open>Control\<close> makes exactly one kernel call,
  setting \<open>SO_REUSEADDR\<close> to 1 at level \<open>SOL_SOCKET\<close> (no port-reuse option is set),
  and returns that call's error; on a closed descriptor it returns the raw
  connection's error. Its result is nil exactly when the descriptor was reached and
  the option was set.
\<close>

theorem Control_sets_reuseaddr:
  "Control e network address (RawConn fd) w =
     (if fd \<in> set (open_fds w)
      then (setsockopt_err e fd SOL_SOCKET SO_REUSEADDR 1,
            w\<lparr>trace := trace w @ [SysSetsockopt fd SOL_SOCKET SO_REUSEADDR 1]\<rparr>)
      else (Some ErrFileClosing, w)) \<and>
   (fst (Control e network address (RawConn fd) w) = None) =
     (fd \<in> set (open_fds w) \<and> setsockopt_err e fd SOL_SOCKET SO_REUSEADDR 1 = None)"
  by (simp add: Control_eq log_def)

text \<open>
  C9. \<open>Control\<close> does not look at its network and address arguments: two calls that
  differ only in them are the same run of the raw connection's \<open>Control\<close> with the
  closure that sets \<open>SO_REUSEADDR\<close> to 1 at \<open>SOL_SOCKET\<close>, with the same result and
  the same world.
\<close>

theorem Control_ignores_network_address:
  "Control e network1 address1 c w = Control e network2 address2 c w \<and>
   Control e network1 address1 c w =
     (case rawconn_Control c (\<lambda>fd _. SetsockoptInt e fd SOL_SOCKET SO_REUSEADDR 1) None w of
        (None, err, w') \<Rightarrow> (err, w')
      | (Some err, _, w') \<Rightarrow> (Some err, w'))"
  by (cases c) (simp add: Control_def SetsockoptInt_def)

section \<open>The dial entry points: properties\<close>

lemma map_outcome_Return: "(map_outcome f x = Return r) = (\<exists>y. x = Return y \<and> r = f y)"
  by (cases x) auto

text \<open>
  C5. In \<open>Dial\<close>, \<open>DialTimeOut\<close> and \<open>DialTLS\<close> the local address is resolved
  first. When \<open>ResolveAddr\<close> fails, each of them returns a nil connection and the
  resolver's error wrapped as \<open>resolving local addr: ...\<close>, and the world is the
  one it was called in: no descriptor was created, no kernel call was made.
\<close>

theorem Dial_resolution_failure:
  "snd (ResolveAddr e network laddr) = Some err \<Longrightarrow>
     Dial e network laddr raddr w = Return ((None, Some (Errorf ''resolving local addr: '' err)), w) \<and>
     DialTimeOut e network laddr raddr timeout w =
       Return ((None, Some (Errorf ''resolving local addr: '' err)), w) \<and>
     DialTLS e network laddr raddr config w =
       Return ((None, Some (Errorf ''resolving local addr: '' err)), w)"
  by (cases "ResolveAddr e network laddr") (simp add: Dial_def DialTimeOut_def DialTLS_def)

theorem Dial_resolution_failure_witness:
  "snd (ResolveAddr host_ok ''sctp'' ''127.0.0.1:1234'') = Some (UnknownNetworkError ''sctp'') \<and>
   Dial host_ok ''sctp'' ''127.0.0.1:1234'' ''127.0.0.1:80'' init_world =
     Return ((None, Some (Errorf ''resolving local addr: '' (UnknownNetworkError ''sctp''))), init_world) \<and>
   DialTimeOut host_ok ''sctp'' ''127.0.0.1:1234'' ''127.0.0.1:80'' 5 init_world =
     Return ((None, Some (Errorf ''resolving local addr: '' (UnknownNetworkError ''sctp''))), init_world) \<and>
   DialTLS host_ok ''sctp'' ''127.0.0.1:1234'' ''127.0.0.1:80'' None init_world =
     Return ((None, Some (Errorf ''resolving local addr: '' (UnknownNetworkError ''sctp''))), init_world)"
proof -
  have fails: "snd (ResolveAddr host_ok ''sctp'' ''127.0.0.1:1234'') = Some (UnknownNetworkError ''sctp'')"
    by (simp add: ResolveAddr_def addrMapping_simps)
  from Dial_resolution_failure [OF fails] fails show ?thesis by simp
qed


text \<open>
  The dialer itself panics when its local address is a nil \<open>*UnixAddr\<close> and the
  remote address resolves to an endpoint: so do \<open>DialUnix\<close> with a nil \<open>laddr\<close>, and
  \<open>DialAddr\<close> with a nil \<open>*UnixAddr\<close> as \<open>laddr\<close>.
\<close>

lemma Dialer_Dial_nil_unix_local_panics:
  "dial_resolve e network address = Inr (ra # ras) \<Longrightarrow> d_LocalAddr d = AddrUnix None \<Longrightarrow>
     Dialer_Dial e d network address w = Panic"
  by (simp add: Dialer_Dial_def hint_filter_def)

lemma DialUnix_nil_local_panics:
  assumes "dial_resolve e network (UnixAddr_String raddr) = Inr (ra # ras)"
  shows "DialUnix e network None raddr w = Panic"
    and "DialAddr e network (AddrUnix None) (AddrUnix raddr) w = Panic"
  using assms by (simp_all add: DialUnix_def DialAddr_def Dialer_Dial_nil_unix_local_panics)



section \<open>The creation sequence: what every attempt guarantees\<close>

lemma options_before_bind_append:
  "options_before_bind (xs @ ys) u =
     (options_before_bind xs u \<and> options_before_bind ys (foldl (\<lambda>u c. tracks c u) u xs))"
  by (induction xs arbitrary: u) auto

lemma net_socket_Enabled:
  "hook_of_package e ctrl \<Longrightarrow> Enabled (snd (net_socket e ctrl n a b m w)) = Enabled w"
  by (cases m)
     (auto simp: hook_of_package_def net_socket_def sys_socket_def run_hook_def Control_eq sys_bind_def
        sys_listen_def sys_connect_def sys_close_def log_def Let_def
        split: option.splits prod.splits sum.splits if_splits)

lemma net_socket_next_fd:
  "hook_of_package e ctrl \<Longrightarrow> next_fd (snd (net_socket e ctrl n a b m w)) = Suc (next_fd w)"
  by (cases m)
     (auto simp: hook_of_package_def net_socket_def sys_socket_def run_hook_def Control_eq sys_bind_def
        sys_listen_def sys_connect_def sys_close_def log_def Let_def
        split: option.splits prod.splits sum.splits if_splits)

lemma net_socket_open_fds:
  "hook_of_package e ctrl \<Longrightarrow> next_fd w \<notin> set (open_fds w) \<Longrightarrow>
     (case net_socket e ctrl n a b m w of
        (Inl err, w') \<Rightarrow> open_fds w' = open_fds w
      | (Inr fd, w') \<Rightarrow> fd = next_fd w \<and> open_fds w' = fd # open_fds w)"
  by (cases m)
     (auto simp: hook_of_package_def net_socket_def sys_socket_def run_hook_def Control_eq sys_bind_def
        sys_listen_def sys_connect_def sys_close_def log_def Let_def
        split: option.splits prod.splits sum.splits if_splits)

lemma net_socket_trace:
  "hook_of_package e ctrl \<Longrightarrow>
     \<exists>cs. trace (snd (net_socket e ctrl n a b m w)) = trace w @ cs \<and> (\<forall>u. options_before_bind cs u)"
  by (cases m)
     (auto simp: hook_of_package_def net_socket_def sys_socket_def run_hook_def Control_eq sys_bind_def
        sys_listen_def sys_connect_def sys_close_def log_def Let_def
        split: option.splits prod.splits sum.splits if_splits)


lemma fresh_fds_not_open: "fresh_fds w \<Longrightarrow> next_fd w \<le> fd \<Longrightarrow> fd \<notin> set (open_fds w)"
  by (auto simp: fresh_fds_def list_all_iff)

lemma net_socket_clean:
  assumes "hook_of_package e ctrl" and "fresh_fds w"
  shows "clean_run w (net_socket e ctrl n a b m w)"
proof -
  have nf: "next_fd w \<notin> set (open_fds w)"
    using assms(2) by (simp add: fresh_fds_not_open)
  obtain res w' where r: "net_socket e ctrl n a b m w = (res, w')"
    by force
  have "next_fd w' = Suc (next_fd w)"
    using net_socket_next_fd [OF assms(1), of n a b m w] r by simp
  moreover have "\<exists>cs. trace w' = trace w @ cs \<and> (\<forall>u. options_before_bind cs u)"
    using net_socket_trace [OF assms(1), of n a b m w] r by simp
  moreover have "case res of Inl err \<Rightarrow> open_fds w' = open_fds w
                 | Inr fd \<Rightarrow> fd = next_fd w \<and> open_fds w' = fd # open_fds w"
    using net_socket_open_fds [OF assms(1) nf, of n a b m] r by simp
  ultimately show ?thesis
    unfolding r clean_run_def by (auto split: sum.splits)
qed

lemma clean_run_fresh:
  assumes "clean_run w (res, w')" and "fresh_fds w"
  shows "fresh_fds w'"
  using assms by (cases res) (auto simp: clean_run_def fresh_fds_def list_all_iff)

lemma clean_run_failed_then:
  assumes first: "clean_run w (Inl err, w1)" and rest: "clean_run w1 r"
  shows "clean_run w r"
proof -
  obtain res w' where r: "r = (res, w')" by force
  from first obtain cs1 where c1: "trace w1 = trace w @ cs1" "\<forall>u. options_before_bind cs1 u"
    and o1: "open_fds w1 = open_fds w" and n1: "next_fd w \<le> next_fd w1"
    by (auto simp: clean_run_def)
  from rest r obtain cs2 where c2: "trace w' = trace w1 @ cs2" "\<forall>u. options_before_bind cs2 u"
    and n2: "next_fd w1 \<le> next_fd w'"
    and o2: "case res of Inl err \<Rightarrow> open_fds w' = open_fds w1
             | Inr fd \<Rightarrow> next_fd w1 \<le> fd \<and> fd < next_fd w' \<and> open_fds w' = fd # open_fds w1"
    by (auto simp: clean_run_def)
  have "trace w' = trace w @ (cs1 @ cs2)"
    using c1(1) c2(1) by simp
  moreover have "\<forall>u. options_before_bind (cs1 @ cs2) u"
    using c1(2) c2(2) by (simp add: options_before_bind_append)
  ultimately have "\<exists>cs. trace w' = trace w @ cs \<and> (\<forall>u. options_before_bind cs u)"
    by blast
  with n1 n2 o1 o2 show ?thesis
    unfolding r clean_run_def by (auto split: sum.splits)
qed

lemma clean_run_refl: "clean_run w (Inl err, w)"
  by (auto simp: clean_run_def)

lemma dialSerial_clean:
  "hook_of_package e (d_Control d) \<Longrightarrow> fresh_fds w \<Longrightarrow>
     clean_run w (dialSerial e d network ras firstErr w)"
proof (induction ras arbitrary: firstErr w)
  case Nil
  then show ?case by (simp add: clean_run_refl)
next
  case (Cons ra ras)
  let ?attempt = "net_socket e (d_Control d) network ra (has_laddr (d_LocalAddr d))
                    (DialTo ra (d_Timeout d)) w"
  have att: "clean_run w ?attempt"
    using Cons.prems by (rule net_socket_clean)
  obtain res w1 where r: "?attempt = (res, w1)" by force
  have go: "clean_run w (case ?attempt of
               (Inr fd, w1) \<Rightarrow> (Inr fd, w1)
             | (Inl err, w1) \<Rightarrow>
                 dialSerial e d network ras (if firstErr = None then Some err else firstErr) w1)"
  proof (cases res)
    case (Inl err)
    have "fresh_fds w1"
      using att Cons.prems(2) unfolding r by (rule clean_run_fresh)
    then have "clean_run w1 (dialSerial e d network ras (if firstErr = None then Some err else firstErr) w1)"
      using Cons.IH Cons.prems(1) by blast
    moreover have "clean_run w (Inl err, w1)"
      using att r Inl by simp
    ultimately show ?thesis
      using r Inl by (simp add: clean_run_failed_then)
  next
    case (Inr fd)
    then show ?thesis using att r by simp
  qed
  show ?case
  proof (cases "if d_Timeout d = 0 then InTime else deadline_state e (d_Timeout d) (next_fd w)")
    case InTime
    then show ?thesis using go by simp
  next
    case (ContextDone err)
    then show ?thesis by (simp add: clean_run_refl)
  next
    case (OutOfTime err)
    then show ?thesis by (simp add: clean_run_refl)
  qed
qed

lemma dialSerial_Enabled:
  "hook_of_package e (d_Control d) \<Longrightarrow>
     Enabled (snd (dialSerial e d network ras firstErr w)) = Enabled w"
proof (induction ras arbitrary: firstErr w)
  case Nil
  then show ?case by simp
next
  case (Cons ra ras)
  let ?attempt = "net_socket e (d_Control d) network ra (has_laddr (d_LocalAddr d))
                    (DialTo ra (d_Timeout d)) w"
  obtain res w1 where r: "?attempt = (res, w1)" by force
  have "Enabled w1 = Enabled w"
    using net_socket_Enabled [OF Cons.prems, of network ra "has_laddr (d_LocalAddr d)" "DialTo ra (d_Timeout d)" w] r
    by simp
  then have go: "Enabled (snd (case ?attempt of
               (Inr fd, w1) \<Rightarrow> (Inr fd, w1)
             | (Inl err, w1) \<Rightarrow>
                 dialSerial e d network ras (if firstErr = None then Some err else firstErr) w1)) = Enabled w"
    using Cons.IH [OF Cons.prems] r by (cases res) simp_all
  show ?case
    using go
    by (cases "if d_Timeout d = 0 then InTime else deadline_state e (d_Timeout d) (next_fd w)") simp_all
qed

lemma Dialer_Dial_cases:
  assumes "Dialer_Dial e d network address w = Return r"
  shows "(\<exists>err. r = (Inl err, w)) \<or> (\<exists>ras. r = dialSerial e d network ras None w)"
  using assms
  by (auto simp: Dialer_Dial_def split: sum.splits outcome.splits)

lemma Dialer_Dial_clean:
  assumes "hook_of_package e (d_Control d)" and "fresh_fds w"
    and "Dialer_Dial e d network address w = Return r"
  shows "clean_run w r"
  using Dialer_Dial_cases [OF assms(3)] dialSerial_clean [OF assms(1,2)]
  by (auto simp: clean_run_refl)

lemma Dialer_Dial_Enabled:
  assumes "hook_of_package e (d_Control d)" and "Dialer_Dial e d network address w = Return r"
  shows "Enabled (snd r) = Enabled w"
  using Dialer_Dial_cases [OF assms(2)] dialSerial_Enabled [OF assms(1)]
  by auto

lemma lc_Listen_clean:
  "fresh_fds w \<Longrightarrow> clean_run w (lc_Listen e (listenConfig e) network address w)"
  by (simp add: lc_Listen_def listenConfig_def net_socket_clean hook_of_package_def clean_run_refl
        split: option.splits)

lemma lc_ListenPacket_clean:
  "fresh_fds w \<Longrightarrow> clean_run w (lc_ListenPacket e (listenConfig e) network address w)"
  by (simp add: lc_ListenPacket_def listenConfig_def net_socket_clean hook_of_package_def clean_run_refl
        split: option.splits)

section \<open>The package variable \<open>Enabled\<close>\<close>

lemma hook_Control [simp]: "hook_of_package e (Some (Control e))" "hook_of_package e None"
  by (simp_all add: hook_of_package_def)

lemma Control_Enabled: "Enabled (snd (Control e network address c w)) = Enabled w"
  by (cases c) (simp add: Control_eq log_def)

lemma listen_Enabled:
  "Enabled (snd (lc_Listen e (listenConfig e) network address w)) = Enabled w"
  "Enabled (snd (lc_ListenPacket e (listenConfig e) network address w)) = Enabled w"
  "Enabled (snd (net_ListenTCP e network tla w)) = Enabled w"
  "Enabled (snd (net_ListenIP e network ila w)) = Enabled w"
  "Enabled (snd (net_ListenUnix e network xla w)) = Enabled w"
  by (simp_all add: lc_Listen_def lc_ListenPacket_def net_ListenTCP_def net_ListenIP_def
        net_ListenUnix_def listenConfig_def net_socket_Enabled split: option.splits)

lemma tls_DialWithDialer_Enabled:
  assumes "hook_of_package e (d_Control d)"
    and "tls_DialWithDialer e d network address config w = Return r"
  shows "Enabled (snd r) = Enabled w"
proof (cases "Dialer_Dial e d network address w")
  case Panic
  then show ?thesis using assms(2) by (simp add: tls_DialWithDialer_def)
next
  case (Return r0)
  have "Enabled (snd r0) = Enabled w"
    using assms(1) Return by (rule Dialer_Dial_Enabled)
  then show ?thesis
    using assms(2) Return
    by (auto simp: tls_DialWithDialer_def sys_close_def log_def
          split: prod.splits sum.splits option.splits)
qed

lemma returns_snd [simp]: "snd (returns_sock r) = snd r" "snd (returns_tls r') = snd r'"
  by (auto simp: returns_sock_def returns_tls_def split: prod.splits sum.splits)

lemma typed_listen_Enabled:
  "Enabled (snd (ListenTCP e network tla w)) = Enabled w"
  "Enabled (snd (ListenIP e network ila w)) = Enabled w"
  "Enabled (snd (ListenUnix e network xla w)) = Enabled w"
proof -
  show "Enabled (snd (ListenTCP e network tla w)) = Enabled w"
    using listen_Enabled(3) [of e network tla w]
    by (auto simp: ListenTCP_def SyscallConn_def Control_eq log_def split: prod.splits sum.splits)
  show "Enabled (snd (ListenIP e network ila w)) = Enabled w"
    using listen_Enabled(4) [of e network ila w]
    by (auto simp: ListenIP_def SyscallConn_def Control_eq log_def split: prod.splits sum.splits)
  show "Enabled (snd (ListenUnix e network xla w)) = Enabled w"
    using listen_Enabled(5) [of e network xla w]
    by (auto simp: ListenUnix_def SyscallConn_def Control_eq log_def split: prod.splits sum.splits)
qed

lemma hooked_listen_Enabled:
  "Enabled (snd (Listen e network address w)) = Enabled w"
  "Enabled (snd (ListenPacket e network address w)) = Enabled w"
  "Enabled (snd (ListenTLS e network address config w)) = Enabled w"
proof -
  show "Enabled (snd (Listen e network address w)) = Enabled w"
    by (simp add: Listen_def listen_Enabled)
  show "Enabled (snd (ListenPacket e network address w)) = Enabled w"
    by (simp add: ListenPacket_def listen_Enabled)
  show "Enabled (snd (ListenTLS e network address config w)) = Enabled w"
    using listen_Enabled(1) [of e network address w]
    by (auto simp: ListenTLS_def split: prod.splits sum.splits)
qed

lemma string_dial_Enabled:
  "Dial e network la ra w = Return r \<Longrightarrow> Enabled (snd r) = Enabled w"
  "DialTimeOut e network la ra timeout w = Return r \<Longrightarrow> Enabled (snd r) = Enabled w"
  "DialTLS e network la ra config w = Return r \<Longrightarrow> Enabled (snd r) = Enabled w"
  by (auto simp: Dial_def DialTimeOut_def DialTLS_def map_outcome_Return
        dest: Dialer_Dial_Enabled [rotated] tls_DialWithDialer_Enabled [rotated]
        split: prod.splits option.splits)

lemma typed_dial_Enabled:
  "DialTCP e network tla tra w = Return r \<Longrightarrow> Enabled (snd r) = Enabled w"
  "DialIP e network ila ira w = Return r \<Longrightarrow> Enabled (snd r) = Enabled w"
  "DialUDP e network ula ura w = Return r \<Longrightarrow> Enabled (snd r) = Enabled w"
  "DialTimeoutUDP e network ula ura timeout w = Return r \<Longrightarrow> Enabled (snd r) = Enabled w"
  "DialUnix e network xla xra w = Return r \<Longrightarrow> Enabled (snd r) = Enabled w"
  "DialAddr e network la ra w = Return r \<Longrightarrow> Enabled (snd r) = Enabled w"
  by (auto simp: DialTCP_def DialIP_def DialUDP_def DialTimeoutUDP_def DialUnix_def DialAddr_def
        map_outcome_Return dest: Dialer_Dial_Enabled [rotated] split: option.splits)

lemma exec_Enabled: "exec e c w = Return w' \<Longrightarrow> Enabled w' = Enabled w"
  by (cases c)
     (auto simp: Control_Enabled hooked_listen_Enabled typed_listen_Enabled map_outcome_Return
        dest: string_dial_Enabled typed_dial_Enabled)

text \<open>
  C8. \<open>Enabled\<close> is \<open>False\<close> when the process starts, and no sequence of calls to
  the package's operations changes it: after any run, from any world, it has the value
  it had before.
\<close>

theorem Enabled_never_written:
  "Enabled init_world = False \<and> Enabled (run e calls w) = Enabled w"
proof
  show "Enabled init_world = False"
    by (simp add: init_world_def)
  show "Enabled (run e calls w) = Enabled w"
  proof (induction calls arbitrary: w)
    case Nil
    show ?case by simp
  next
    case (Cons c calls)
    show ?case
    proof (cases "exec e c w")
      case Panic
      then show ?thesis by simp
    next
      case (Return w')
      then show ?thesis using Cons.IH [of w'] exec_Enabled [OF Return] by simp
    qed
  qed
qed

section \<open>Entry points that install the controller as the creation hook\<close>

text \<open>
  \<open>Listen\<close>, \<open>ListenTLS\<close>, \<open>ListenPacket\<close> and every dial entry point pass
  \<open>Control\<close> to the library as a hook. For them a call that returns an error leaves
  no descriptor open, every option is set before bind, listen and connect, and on a
  host that refuses the option every call that returns, returns an error. All of them
  but \<open>DialTLS\<close> return no object with an error; \<open>DialTLS\<close> returns a non-nil
  \<open>net.Conn\<close> holding a nil \<open>*tls.Conn\<close> with the error of a failed dial or
  handshake.
\<close>

lemma calls_of_append: "trace w' = trace w @ cs \<Longrightarrow> calls_of w w' = cs"
  by (simp add: calls_of_def)

lemma clean_run_aborts_cleanly: "clean_run w r \<Longrightarrow> aborts_cleanly w (returns_sock r)"
  by (auto simp: clean_run_def aborts_cleanly_def returns_sock_def split: prod.splits sum.splits)

lemma clean_run_options: "clean_run w r \<Longrightarrow> options_before_bind (calls_of w (snd r)) u"
  by (auto simp: clean_run_def calls_of_append split: prod.splits)

lemma aborts_cleanly_releases: "aborts_cleanly w r \<Longrightarrow> releases_on_failure w r"
  by (auto simp: aborts_cleanly_def releases_on_failure_def split: prod.splits option.splits)

lemma tls_DialWithDialer_clean:
  assumes "hook_of_package e (d_Control d)" and "fresh_fds w"
    and ret: "tls_DialWithDialer e d network address config w = Return r"
  shows "releases_on_failure w (returns_tls r)"
    and "options_before_bind (calls_of w (snd r)) u"
proof -
  obtain res w1 where r0: "Dialer_Dial e d network address w = Return (res, w1)"
    using ret by (cases "Dialer_Dial e d network address w") (auto simp: tls_DialWithDialer_def)
  have c: "clean_run w (res, w1)"
    using assms(1,2) r0 by (rule Dialer_Dial_clean)
  then obtain cs where cs: "trace w1 = trace w @ cs" "\<forall>u. options_before_bind cs u"
    by (auto simp: clean_run_def)
  show "releases_on_failure w (returns_tls r)"
  proof (cases res)
    case (Inl err)
    then show ?thesis
      using c r0 ret
      by (auto simp: tls_DialWithDialer_def returns_tls_def releases_on_failure_def clean_run_def)
  next
    case (Inr fd)
    then have "fd \<notin> set (open_fds w)" "open_fds w1 = fd # open_fds w"
      using c assms(2) by (auto simp: clean_run_def fresh_fds_not_open)
    then show ?thesis
      using r0 Inr ret
      by (auto simp: tls_DialWithDialer_def returns_tls_def releases_on_failure_def sys_close_def
            log_def split: option.splits)
  qed
  show "options_before_bind (calls_of w (snd r)) u"
  proof (cases res)
    case (Inl err)
    then show ?thesis
      using cs r0 ret by (auto simp: tls_DialWithDialer_def calls_of_append)
  next
    case (Inr fd)
    have "calls_of w (snd r) =
            (case handshake_err e fd of
               Some err \<Rightarrow> cs @ [TLSHandshake fd, SysClose fd]
             | None \<Rightarrow> cs @ [TLSHandshake fd])"
      using r0 Inr cs(1) ret
      by (auto simp: tls_DialWithDialer_def calls_of_def sys_close_def log_def split: option.splits)
    then show ?thesis
      using cs(2) by (simp add: options_before_bind_append split: option.splits)
  qed
qed

lemma aborts_cleanly_unchanged: "aborts_cleanly w ((None, Some err), w)"
  by (simp add: aborts_cleanly_def)

lemma dial_returns:
  assumes "map_outcome returns_sock (Dialer_Dial e d n a w) = Return r"
    and "d_Control d = Some (Control e)" and "fresh_fds w"
  shows "aborts_cleanly w r" and "options_before_bind (calls_of w (snd r)) u"
proof -
  obtain r0 where r0: "Dialer_Dial e d n a w = Return r0" "r = returns_sock r0"
    using assms(1) by (auto simp: map_outcome_Return)
  have "clean_run w r0"
    using Dialer_Dial_clean [OF _ assms(3) r0(1)] assms(2) by simp
  then show "aborts_cleanly w r" and "options_before_bind (calls_of w (snd r)) u"
    using r0(2) by (simp_all add: clean_run_aborts_cleanly clean_run_options)
qed

lemma tls_dial_returns:
  assumes "map_outcome returns_tls (tls_DialWithDialer e d n a config w) = Return r"
    and "d_Control d = Some (Control e)" and "fresh_fds w"
  shows "releases_on_failure w r" and "options_before_bind (calls_of w (snd r)) u"
proof -
  obtain t where t: "tls_DialWithDialer e d n a config w = Return t" "r = returns_tls t"
    using assms(1) by (auto simp: map_outcome_Return)
  have hook: "hook_of_package e (d_Control d)"
    using assms(2) by simp
  show "releases_on_failure w r"
    using tls_DialWithDialer_clean(1) [OF hook assms(3) t(1)] t(2) by simp
  show "options_before_bind (calls_of w (snd r)) u"
    using tls_DialWithDialer_clean(2) [OF hook assms(3) t(1)] t(2) by simp
qed

lemma returns_tls_error: "returns_tls t = ((obj, Some err), w') \<Longrightarrow> obj = Some (TLSConnPtr None)"
  by (auto simp: returns_tls_def split: prod.splits sum.splits)

lemma hooked_entry_points_abort_cleanly:
  assumes "fresh_fds w"
  shows "aborts_cleanly w (Listen e network address w)"
    and "aborts_cleanly w (ListenTLS e network address config w)"
    and "aborts_cleanly w (ListenPacket e network address w)"
    and "Dial e network la ra w = Return r \<Longrightarrow> aborts_cleanly w r"
    and "DialTimeOut e network la ra timeout w = Return r \<Longrightarrow> aborts_cleanly w r"
    and "DialTCP e network tla tra w = Return r \<Longrightarrow> aborts_cleanly w r"
    and "DialIP e network ila ira w = Return r \<Longrightarrow> aborts_cleanly w r"
    and "DialUDP e network ula ura w = Return r \<Longrightarrow> aborts_cleanly w r"
    and "DialTimeoutUDP e network ula ura timeout w = Return r \<Longrightarrow> aborts_cleanly w r"
    and "DialUnix e network xla xra w = Return r \<Longrightarrow> aborts_cleanly w r"
    and "DialAddr e network laddr raddr w = Return r \<Longrightarrow> aborts_cleanly w r"
proof -
  show "aborts_cleanly w (Listen e network address w)"
    by (simp add: Listen_def clean_run_aborts_cleanly [OF lc_Listen_clean [OF assms]])
  show "aborts_cleanly w (ListenTLS e network address config w)"
    using lc_Listen_clean [OF assms, of e network address]
    by (auto simp: ListenTLS_def aborts_cleanly_def clean_run_def split: prod.splits sum.splits)
  show "aborts_cleanly w (ListenPacket e network address w)"
    by (simp add: ListenPacket_def clean_run_aborts_cleanly [OF lc_ListenPacket_clean [OF assms]])
  show "Dial e network la ra w = Return r \<Longrightarrow> aborts_cleanly w r"
    by (auto simp: Dial_def aborts_cleanly_unchanged assms split: prod.splits option.splits
          elim!: dial_returns(1))
  show "DialTimeOut e network la ra timeout w = Return r \<Longrightarrow> aborts_cleanly w r"
    by (auto simp: DialTimeOut_def aborts_cleanly_unchanged assms split: prod.splits option.splits
          elim!: dial_returns(1))
  show "DialTCP e network tla tra w = Return r \<Longrightarrow> aborts_cleanly w r"
    unfolding DialTCP_def by (erule dial_returns(1)) (simp_all add: assms)
  show "DialIP e network ila ira w = Return r \<Longrightarrow> aborts_cleanly w r"
    unfolding DialIP_def by (erule dial_returns(1)) (simp_all add: assms)
  show "DialUDP e network ula ura w = Return r \<Longrightarrow> aborts_cleanly w r"
    unfolding DialUDP_def by (erule dial_returns(1)) (simp_all add: assms)
  show "DialTimeoutUDP e network ula ura timeout w = Return r \<Longrightarrow> aborts_cleanly w r"
    unfolding DialTimeoutUDP_def by (erule dial_returns(1)) (simp_all add: assms)
  show "DialUnix e network xla xra w = Return r \<Longrightarrow> aborts_cleanly w r"
    unfolding DialUnix_def by (erule dial_returns(1)) (simp_all add: assms)
  show "DialAddr e network laddr raddr w = Return r \<Longrightarrow> aborts_cleanly w r"
    by (auto simp: DialAddr_def assms split: option.splits elim!: dial_returns(1))
qed

lemma DialTLS_releases_on_failure:
  assumes "fresh_fds w" and "DialTLS e network la ra config w = Return r"
  shows "releases_on_failure w r"
  using assms(2)
  by (auto simp: DialTLS_def aborts_cleanly_unchanged aborts_cleanly_releases assms(1)
        split: prod.splits option.splits elim!: tls_dial_returns(1))

lemma DialTLS_failure_returns_nil_pointer:
  assumes "snd (ResolveAddr e network la) = None"
    and "DialTLS e network la ra config w = Return ((obj, Some err), w')"
  shows "obj = Some (TLSConnPtr None)"
  using assms
  by (auto simp: DialTLS_def map_outcome_Return split: prod.splits dest: returns_tls_error [OF sym])

lemma hooked_entry_points_options_before_bind:
  assumes "fresh_fds w"
  shows "options_before_bind (calls_of w (snd (Listen e network address w))) []"
    and "options_before_bind (calls_of w (snd (ListenTLS e network address config w))) []"
    and "options_before_bind (calls_of w (snd (ListenPacket e network address w))) []"
    and "Dial e network la ra w = Return r \<Longrightarrow> options_before_bind (calls_of w (snd r)) []"
    and "DialTimeOut e network la ra timeout w = Return r \<Longrightarrow> options_before_bind (calls_of w (snd r)) []"
    and "DialTLS e network la ra config w = Return r \<Longrightarrow> options_before_bind (calls_of w (snd r)) []"
    and "DialTCP e network tla tra w = Return r \<Longrightarrow> options_before_bind (calls_of w (snd r)) []"
    and "DialIP e network ila ira w = Return r \<Longrightarrow> options_before_bind (calls_of w (snd r)) []"
    and "DialUDP e network ula ura w = Return r \<Longrightarrow> options_before_bind (calls_of w (snd r)) []"
    and "DialTimeoutUDP e network ula ura timeout w = Return r \<Longrightarrow>
           options_before_bind (calls_of w (snd r)) []"
    and "DialUnix e network xla xra w = Return r \<Longrightarrow> options_before_bind (calls_of w (snd r)) []"
    and "DialAddr e network laddr raddr w = Return r \<Longrightarrow> options_before_bind (calls_of w (snd r)) []"
proof -
  have same: "calls_of w w = []"
    by (simp add: calls_of_def)
  show "options_before_bind (calls_of w (snd (Listen e network address w))) []"
    by (simp add: Listen_def clean_run_options [OF lc_Listen_clean [OF assms]])
  show "options_before_bind (calls_of w (snd (ListenTLS e network address config w))) []"
    using clean_run_options [OF lc_Listen_clean [OF assms], of e network address "[]"]
    by (auto simp: ListenTLS_def split: prod.splits sum.splits)
  show "options_before_bind (calls_of w (snd (ListenPacket e network address w))) []"
    by (simp add: ListenPacket_def clean_run_options [OF lc_ListenPacket_clean [OF assms]])
  show "Dial e network la ra w = Return r \<Longrightarrow> options_before_bind (calls_of w (snd r)) []"
    by (auto simp: Dial_def same assms split: prod.splits option.splits elim!: dial_returns(2))
  show "DialTimeOut e network la ra timeout w = Return r \<Longrightarrow> options_before_bind (calls_of w (snd r)) []"
    by (auto simp: DialTimeOut_def same assms split: prod.splits option.splits elim!: dial_returns(2))
  show "DialTLS e network la ra config w = Return r \<Longrightarrow> options_before_bind (calls_of w (snd r)) []"
    by (auto simp: DialTLS_def same assms split: prod.splits option.splits elim!: tls_dial_returns(2))
  show "DialTCP e network tla tra w = Return r \<Longrightarrow> options_before_bind (calls_of w (snd r)) []"
    unfolding DialTCP_def by (erule dial_returns(2)) (simp_all add: assms)
  show "DialIP e network ila ira w = Return r \<Longrightarrow> options_before_bind (calls_of w (snd r)) []"
    unfolding DialIP_def by (erule dial_returns(2)) (simp_all add: assms)
  show "DialUDP e network ula ura w = Return r \<Longrightarrow> options_before_bind (calls_of w (snd r)) []"
    unfolding DialUDP_def by (erule dial_returns(2)) (simp_all add: assms)
  show "DialTimeoutUDP e network ula ura timeout w = Return r \<Longrightarrow>
          options_before_bind (calls_of w (snd r)) []"
    unfolding DialTimeoutUDP_def by (erule dial_returns(2)) (simp_all add: assms)
  show "DialUnix e network xla xra w = Return r \<Longrightarrow> options_before_bind (calls_of w (snd r)) []"
    unfolding DialUnix_def by (erule dial_returns(2)) (simp_all add: assms)
  show "DialAddr e network laddr raddr w = Return r \<Longrightarrow> options_before_bind (calls_of w (snd r)) []"
    by (auto simp: DialAddr_def assms split: option.splits elim!: dial_returns(2))
qed

lemma net_socket_refused:
  assumes "option_refused e"
  shows "\<exists>err. fst (net_socket e (Some (Control e)) n a b m w) = Inl err"
proof -
  obtain err where "setsockopt_err e (next_fd w) SOL_SOCKET SO_REUSEADDR 1 = Some err"
    using assms by (auto simp: option_refused_def)
  then show ?thesis
    by (simp add: net_socket_def sys_socket_def run_hook_def Control_eq log_def Let_def
          split: option.splits)
qed

lemma dialSerial_refused:
  "option_refused e \<Longrightarrow> d_Control d = Some (Control e) \<Longrightarrow>
     \<exists>err. fst (dialSerial e d network ras firstErr w) = Inl err"
proof (induction ras arbitrary: firstErr w)
  case Nil
  show ?case by simp
next
  case (Cons ra ras)
  obtain err where "fst (net_socket e (Some (Control e)) network ra (has_laddr (d_LocalAddr d))
                      (DialTo ra (d_Timeout d)) w) = Inl err"
    using net_socket_refused [OF Cons.prems(1)] by blast
  then show ?case
    using Cons.IH [OF Cons.prems] Cons.prems(2)
    by (cases "if d_Timeout d = 0 then InTime else deadline_state e (d_Timeout d) (next_fd w)")
       (auto split: prod.splits sum.splits)
qed

lemma Dialer_Dial_refused:
  assumes "option_refused e" and "d_Control d = Some (Control e)"
    and "Dialer_Dial e d network address w = Return r"
  shows "\<exists>err. fst r = Inl err"
  using Dialer_Dial_cases [OF assms(3)] dialSerial_refused [OF assms(1,2)]
  by auto

lemma failed_returns_sock: "\<exists>err. fst r = Inl err \<Longrightarrow> fst (fst (returns_sock r)) = None"
  by (cases r) (auto simp: returns_sock_def)

lemma dial_refused:
  assumes "map_outcome returns_sock (Dialer_Dial e d n a w) = Return r"
    and "d_Control d = Some (Control e)" and "option_refused e"
  shows "fst (fst r) = None"
proof -
  obtain r0 where r0: "Dialer_Dial e d n a w = Return r0" "r = returns_sock r0"
    using assms(1) by (auto simp: map_outcome_Return)
  show ?thesis
    unfolding r0(2) using Dialer_Dial_refused [OF assms(3,2) r0(1)] by (rule failed_returns_sock)
qed

lemma hooked_entry_points_refused:
  assumes "option_refused e"
  shows "fst (fst (Listen e network address w)) = None"
    and "fst (fst (ListenTLS e network address config w)) = None"
    and "fst (fst (ListenPacket e network address w)) = None"
    and "Dial e network la ra w = Return r \<Longrightarrow> fst (fst r) = None"
    and "DialTimeOut e network la ra timeout w = Return r \<Longrightarrow> fst (fst r) = None"
    and "DialTLS e network la ra config w = Return r \<Longrightarrow> snd (fst r) \<noteq> None"
    and "DialTCP e network tla tra w = Return r \<Longrightarrow> fst (fst r) = None"
    and "DialIP e network ila ira w = Return r \<Longrightarrow> fst (fst r) = None"
    and "DialUDP e network ula ura w = Return r \<Longrightarrow> fst (fst r) = None"
    and "DialTimeoutUDP e network ula ura timeout w = Return r \<Longrightarrow> fst (fst r) = None"
    and "DialUnix e network xla xra w = Return r \<Longrightarrow> fst (fst r) = None"
    and "DialAddr e network laddr raddr w = Return r \<Longrightarrow> fst (fst r) = None"
proof -
  have lis: "\<exists>err. fst (lc_Listen e (listenConfig e) network address w) = Inl err"
    using net_socket_refused [OF assms]
    by (simp add: lc_Listen_def listenConfig_def split: option.splits)
  have lisp: "\<exists>err. fst (lc_ListenPacket e (listenConfig e) network address w) = Inl err"
    using net_socket_refused [OF assms]
    by (simp add: lc_ListenPacket_def listenConfig_def split: option.splits)
  show "fst (fst (Listen e network address w)) = None"
    using lis by (simp add: Listen_def failed_returns_sock)
  show "fst (fst (ListenTLS e network address config w)) = None"
    using lis by (auto simp: ListenTLS_def split: prod.splits sum.splits)
  show "fst (fst (ListenPacket e network address w)) = None"
    using lisp by (simp add: ListenPacket_def failed_returns_sock)
  show "Dial e network la ra w = Return r \<Longrightarrow> fst (fst r) = None"
    by (auto simp: Dial_def assms split: prod.splits option.splits elim!: dial_refused)
  show "DialTimeOut e network la ra timeout w = Return r \<Longrightarrow> fst (fst r) = None"
    by (auto simp: DialTimeOut_def assms split: prod.splits option.splits elim!: dial_refused)
  show "DialTLS e network la ra config w = Return r \<Longrightarrow> snd (fst r) \<noteq> None"
  proof -
    assume ret: "DialTLS e network la ra config w = Return r"
    show "snd (fst r) \<noteq> None"
    proof (cases "snd (ResolveAddr e network la)")
      case (Some err)
      then show ?thesis
        using ret by (cases "ResolveAddr e network la") (auto simp: DialTLS_def)
    next
      case None
      then obtain nla where nla: "ResolveAddr e network la = (nla, None)"
        by (cases "ResolveAddr e network la") auto
      let ?d = "\<lparr>d_Control = Some (Control e), d_LocalAddr = nla, d_Timeout = 0\<rparr>"
      obtain t where t: "tls_DialWithDialer e ?d network ra config w = Return t" "r = returns_tls t"
        using ret nla by (auto simp: DialTLS_def map_outcome_Return)
      then obtain r0 where r0: "Dialer_Dial e ?d network ra w = Return r0"
        by (cases "Dialer_Dial e ?d network ra w") (auto simp: tls_DialWithDialer_def)
      then obtain err where "fst r0 = Inl err"
        using Dialer_Dial_refused [OF assms _ r0] by auto
      then show ?thesis
        using t r0 by (cases r0) (auto simp: tls_DialWithDialer_def returns_tls_def)
    qed
  qed
  show "DialTCP e network tla tra w = Return r \<Longrightarrow> fst (fst r) = None"
    unfolding DialTCP_def by (erule dial_refused) (simp_all add: assms)
  show "DialIP e network ila ira w = Return r \<Longrightarrow> fst (fst r) = None"
    unfolding DialIP_def by (erule dial_refused) (simp_all add: assms)
  show "DialUDP e network ula ura w = Return r \<Longrightarrow> fst (fst r) = None"
    unfolding DialUDP_def by (erule dial_refused) (simp_all add: assms)
  show "DialTimeoutUDP e network ula ura timeout w = Return r \<Longrightarrow> fst (fst r) = None"
    unfolding DialTimeoutUDP_def by (erule dial_refused) (simp_all add: assms)
  show "DialUnix e network xla xra w = Return r \<Longrightarrow> fst (fst r) = None"
    unfolding DialUnix_def by (erule dial_refused) (simp_all add: assms)
  show "DialAddr e network laddr raddr w = Return r \<Longrightarrow> fst (fst r) = None"
    by (auto simp: DialAddr_def assms split: option.splits elim!: dial_refused)
qed

section \<open>The typed listen entry points\<close>

text \<open>
  \<open>ListenTCP\<close>, \<open>ListenIP\<close> and \<open>ListenUnix\<close> call the library's typed constructor,
  which takes no hook, and run \<open>Control\<close> on the listener it returns.
\<close>

lemma net_socket_listen_unhooked:
  assumes "socket_err e (next_fd w) = None" and "bind_err e (next_fd w) = None"
  shows "listen_err e (next_fd w) = None \<Longrightarrow>
         net_socket e None n a True ListenStream w =
           (Inr (next_fd w),
            w\<lparr>next_fd := Suc (next_fd w), open_fds := next_fd w # open_fds w,
              trace := trace w @ [SysSocket (next_fd w), SysBind (next_fd w), SysListen (next_fd w)]\<rparr>)"
    and "net_socket e None n a True ListenDatagram w =
           (Inr (next_fd w),
            w\<lparr>next_fd := Suc (next_fd w), open_fds := next_fd w # open_fds w,
              trace := trace w @ [SysSocket (next_fd w), SysBind (next_fd w)]\<rparr>)"
  using assms
  by (simp_all add: net_socket_def sys_socket_def run_hook_def sys_bind_def sys_listen_def log_def Let_def)

text \<open>
  C1. When the kernel creates, binds and listens on the socket but refuses the
  address-reuse option, \<open>ListenTCP\<close>, \<open>ListenIP\<close> and \<open>ListenUnix\<close> return the
  listener together with the error, and the descriptor stays open: the call neither
  aborts nor releases the socket. (The entry points that install the hook release the
  descriptor whenever they return an error, and all of them but \<open>DialTLS\<close> return no
  object with it: \<open>hooked_entry_points_abort_cleanly\<close>,
  \<open>DialTLS_releases_on_failure\<close>, \<open>hooked_entry_points_refused\<close>.)
\<close>

theorem typed_listen_returns_listener_with_error:
  assumes "socket_err e (next_fd w) = None" and "bind_err e (next_fd w) = None"
    and "listen_err e (next_fd w) = None"
    and "setsockopt_err e (next_fd w) SOL_SOCKET SO_REUSEADDR 1 = Some err"
    and "parseNetwork e ipnet = None"
  shows "fst (ListenTCP e ''tcp'' tla w) = (Some (Sock (next_fd w)), Some err) \<and>
         next_fd w \<in> set (open_fds (snd (ListenTCP e ''tcp'' tla w))) \<and>
         fst (ListenIP e ipnet ila w) = (Some (Sock (next_fd w)), Some err) \<and>
         next_fd w \<in> set (open_fds (snd (ListenIP e ipnet ila w))) \<and>
         fst (ListenUnix e ''unix'' (Some xa) w) = (Some (Sock (next_fd w)), Some err) \<and>
         next_fd w \<in> set (open_fds (snd (ListenUnix e ''unix'' (Some xa) w)))"
  using assms
  by (simp add: ListenTCP_def ListenIP_def ListenUnix_def net_ListenTCP_def net_ListenIP_def
        net_ListenUnix_def net_socket_listen_unhooked SyscallConn_def Control_eq log_def)

theorem typed_listen_returns_listener_with_error_witness:
  "ListenTCP host_denied ''tcp'' None init_world =
     ((Some (Sock 0), Some (OSError ''WSAEACCES'')),
      \<lparr>Enabled = False, next_fd = 1, open_fds = [0],
       trace = [SysSocket 0, SysBind 0, SysListen 0, SysSetsockopt 0 SOL_SOCKET SO_REUSEADDR 1]\<rparr>) \<and>
   fst (ListenIP host_denied ''ip4:icmp'' None init_world) = (Some (Sock 0), Some (OSError ''WSAEACCES'')) \<and>
   fst (ListenUnix host_denied ''unix'' (Some (UnixAddr ''/tmp/s'' ''unix'')) init_world) =
     (Some (Sock 0), Some (OSError ''WSAEACCES''))"
proof -
  have h: "socket_err host_denied (next_fd init_world) = None"
      "bind_err host_denied (next_fd init_world) = None"
      "listen_err host_denied (next_fd init_world) = None"
      "setsockopt_err host_denied (next_fd init_world) SOL_SOCKET SO_REUSEADDR 1 = Some (OSError ''WSAEACCES'')"
      "parseNetwork host_denied ''ip4:icmp'' = None"
    by (simp_all add: host_denied_def host_ok_def)
  have run: "snd (ListenTCP host_denied ''tcp'' None init_world) =
      \<lparr>Enabled = False, next_fd = 1, open_fds = [0],
       trace = [SysSocket 0, SysBind 0, SysListen 0, SysSetsockopt 0 SOL_SOCKET SO_REUSEADDR 1]\<rparr>"
    by (simp add: ListenTCP_def net_ListenTCP_def net_socket_def sys_socket_def run_hook_def
          sys_bind_def sys_listen_def SyscallConn_def Control_eq log_def init_world_def
          host_denied_def host_ok_def)
  have nf: "next_fd init_world = 0"
    by (simp add: init_world_def)
  from typed_listen_returns_listener_with_error [OF h, of None None "UnixAddr ''/tmp/s'' ''unix''"] run nf
  show ?thesis by (simp add: prod_eq_iff)
qed

text \<open>
  C2. In \<open>ListenTCP\<close>, \<open>ListenIP\<close> and \<open>ListenUnix\<close> the controller runs after the
  library has bound the socket (and, for the stream listeners, put it to listen): the
  \<open>setsockopt\<close> is the last kernel call of the entry point, not one made between
  \<open>socket\<close> and \<open>bind\<close>. (For the entry points that install the hook it comes
  first: \<open>hooked_entry_points_options_before_bind\<close>.)
\<close>

theorem typed_listen_sets_option_after_bind:
  assumes "socket_err e (next_fd w) = None" and "bind_err e (next_fd w) = None"
    and "listen_err e (next_fd w) = None" and "parseNetwork e ipnet = None"
  shows "calls_of w (snd (ListenTCP e ''tcp'' tla w)) =
           [SysSocket (next_fd w), SysBind (next_fd w), SysListen (next_fd w),
            SysSetsockopt (next_fd w) SOL_SOCKET SO_REUSEADDR 1] \<and>
         calls_of w (snd (ListenIP e ipnet ila w)) =
           [SysSocket (next_fd w), SysBind (next_fd w),
            SysSetsockopt (next_fd w) SOL_SOCKET SO_REUSEADDR 1] \<and>
         calls_of w (snd (ListenUnix e ''unix'' (Some xa) w)) =
           [SysSocket (next_fd w), SysBind (next_fd w), SysListen (next_fd w),
            SysSetsockopt (next_fd w) SOL_SOCKET SO_REUSEADDR 1] \<and>
         \<not> options_before_bind (calls_of w (snd (ListenTCP e ''tcp'' tla w))) [] \<and>
         \<not> options_before_bind (calls_of w (snd (ListenIP e ipnet ila w))) [] \<and>
         \<not> options_before_bind (calls_of w (snd (ListenUnix e ''unix'' (Some xa) w))) []"
  using assms
  by (simp add: ListenTCP_def ListenIP_def ListenUnix_def net_ListenTCP_def net_ListenIP_def
        net_ListenUnix_def net_socket_listen_unhooked SyscallConn_def Control_eq log_def calls_of_def)

theorem typed_listen_sets_option_after_bind_witness:
  "calls_of init_world (snd (ListenTCP host_ok ''tcp'' None init_world)) =
     [SysSocket 0, SysBind 0, SysListen 0, SysSetsockopt 0 SOL_SOCKET SO_REUSEADDR 1] \<and>
   \<not> options_before_bind (calls_of init_world (snd (ListenTCP host_ok ''tcp'' None init_world))) [] \<and>
   calls_of init_world (snd (Listen host_ok ''tcp'' ''127.0.0.1:1234'' init_world)) =
     [SysSocket 0, SysSetsockopt 0 SOL_SOCKET SO_REUSEADDR 1, SysBind 0, SysListen 0]"
proof -
  have h: "socket_err host_ok (next_fd init_world) = None"
      "bind_err host_ok (next_fd init_world) = None"
      "listen_err host_ok (next_fd init_world) = None"
      "parseNetwork host_ok ''ip4:icmp'' = None"
    by (simp_all add: host_ok_def)
  have nf: "next_fd init_world = 0"
    by (simp add: init_world_def)
  have hooked: "calls_of init_world (snd (Listen host_ok ''tcp'' ''127.0.0.1:1234'' init_world)) =
     [SysSocket 0, SysSetsockopt 0 SOL_SOCKET SO_REUSEADDR 1, SysBind 0, SysListen 0]"
    by (simp add: Listen_def lc_Listen_def listenConfig_def net_socket_def sys_socket_def run_hook_def
          Control_eq sys_bind_def sys_listen_def log_def calls_of_def returns_sock_def
          host_ok_def init_world_def)
  from typed_listen_sets_option_after_bind [OF h, of None None "UnixAddr ''/tmp/s'' ''unix''"] nf hooked
  show ?thesis by simp
qed

end
